theory Spec2Isabelle
  imports Main "HOL-Library.Word" "HOL-Library.AList"
begin

section \<open>Data model\<close>

text \<open>
  The group messaging core of openindexcli: \<^verbatim>\<open>lib/helpers.ts\<close> (blinded inbox ids),
  \<^verbatim>\<open>lib/group.js\<close> (ratchet step and key redistribution), \<^verbatim>\<open>lib/local.js\<close> (the
  group store in \<^verbatim>\<open>~/.openindex/groups.json\<close>) and the commands \<^verbatim>\<open>get-messages\<close>,
  \<^verbatim>\<open>create-group\<close> and \<^verbatim>\<open>group-send\<close> of \<^verbatim>\<open>index.ts\<close>.

  A JavaScript value that may be \<^verbatim>\<open>undefined\<close> is an option; the property values the
  program reads are strings (numbers for time stamps). A JavaScript string is the list of
  the bytes of its UTF-8 encoding, which is what \<^verbatim>\<open>createHash(...).update(s)\<close> digests;
  the byte of a colon, a slash or a hex digit occurs in it only as that character. A Node
  \<^verbatim>\<open>Buffer\<close> is a list of bytes. An object used as a dictionary is an association list
  of its own properties, read with \<open>map_of\<close>; where the program reads a property whose
  name comes from outside, the members inherited from \<^verbatim>\<open>Object.prototype\<close> are modelled
  too (section on the group store).
\<close>

type_synonym buffer = "8 word list"

text \<open>What \<^verbatim>\<open>JSON.parse\<close> gives for a decrypted plaintext: the properties the program reads.\<close>

record payload =
  p_text :: "string option"
  p_senderId :: "string option"
  p_createdAt :: "nat option"
  p_type :: "string option"
  p_groupId :: "string option"
  p_groupInboxId :: "string option"
  p_creator :: "string option"
  p_chainKey :: "string option"
  p_signingPubKey :: "string option"

definition no_payload :: payload where
  "no_payload = \<lparr>p_text = None, p_senderId = None, p_createdAt = None, p_type = None,
     p_groupId = None, p_groupInboxId = None, p_creator = None, p_chainKey = None,
     p_signingPubKey = None\<rparr>"

text \<open>A record of the relay's inbox, as \<^verbatim>\<open>/cli/messages/<inboxId>\<close> returns it.\<close>

record inbox_record =
  r_message :: "string option"
  r_signature :: "string option"
  r_senderId :: "string option"
  r_id :: "string option"

text \<open>The JSON body of a POST to the relay's send endpoint.\<close>

record post_body =
  recipientHash :: "string option"
  message :: string
  signature :: "string option"
  senderId :: "string option"

text \<open>One entry of \<^verbatim>\<open>groups.json\<close>.\<close>

record group =
  name :: "string option"
  groupInboxId :: "string option"
  creator :: "string option"
  myChainKey :: "string option"
  mySigningKey :: "string option"
  mySigningPubKey :: "string option"
  members :: "string list option"
  memberKeys :: "(string \<times> string) list option"
  signingKeys :: "(string \<times> string) list option"
  updatedAt :: "nat option"

definition empty_group :: group where
  "empty_group = \<lparr>name = None, groupInboxId = None, creator = None, myChainKey = None,
     mySigningKey = None, mySigningPubKey = None, members = None, memberKeys = None,
     signingKeys = None, updatedAt = None\<rparr>"

text \<open>
  The file \<^verbatim>\<open>groups.json\<close>: absent, present but not JSON, or an object of groups by name.
\<close>

datatype groups_file = Missing | Corrupt | Groups "(string \<times> group) list"

datatype exn = TypeError | SyntaxError | FetchError | CryptoError | Error string

text \<open>
  How a statement ends: normally, by \<^verbatim>\<open>return\<close> out of the command's action, or by an
  exception that the action's outer \<^verbatim>\<open>try/catch\<close> reports.
\<close>

datatype flow = Normal | Return | Throw exn

text \<open>Console output: a displayed message (id, createdAt, senderId, text), a notice, an error.\<close>

datatype line =
    Display "string option" "nat option" "string option" "string option"
  | Info string
  | ErrorLine string

text \<open>What the process does to the outside, in order.\<close>

datatype event =
    HttpGet string
  | HttpPost string post_body
  | HttpPostRejected string post_body
  | FsWrite "(string \<times> group) list"
  | Console line

text \<open>
  The libraries and the outside world the commands call: the built-in
  \<^verbatim>\<open>String.prototype.toLowerCase\<close> (Unicode lower-casing, here on UTF-8 text), Node's
  \<^verbatim>\<open>crypto\<close>, eth-crypto, ethers, \<^verbatim>\<open>JSON\<close>, the relay behind \<^verbatim>\<open>fetch\<close>, the entropy
  source and the clock. They are parameters of the model. A primitive that can throw returns an option, \<open>None\<close> being the
  exception. \<open>get_user\<close> is the public key a user lookup yields (\<open>None\<close> when the request is
  rejected, the body is not JSON or has no usable \<^verbatim>\<open>publicKey\<close>, all of which throw before
  the key is used); \<open>get_inbox\<close> is the inbox listing; \<open>post\<close> tells whether the POST
  resolves (the HTTP status is never inspected by the code) or is rejected.
\<close>

record env =
  toLowerCase :: "string \<Rightarrow> string"
  sha256 :: "string \<Rightarrow> string"
  hmac_sha256 :: "buffer \<Rightarrow> string \<Rightarrow> buffer"
  aes_gcm_encrypt :: "buffer \<Rightarrow> buffer \<Rightarrow> string \<Rightarrow> string \<times> string"
  aes_gcm_decrypt :: "buffer \<Rightarrow> string \<Rightarrow> string \<Rightarrow> string \<Rightarrow> string option"
  encryptWithPublicKey :: "string \<Rightarrow> string \<Rightarrow> string option"
  decryptWithPrivateKey :: "string \<Rightarrow> string \<Rightarrow> string option"
  signMessage :: "string \<Rightarrow> string \<Rightarrow> string option"
  verifyMessage :: "string \<Rightarrow> string \<Rightarrow> string option"
  toAddress :: "string \<Rightarrow> string option"
  publicKeyByPrivateKey :: "string \<Rightarrow> string option"
  createIdentity :: "buffer \<Rightarrow> string \<times> string"
  eth_sign :: "string option \<Rightarrow> string \<Rightarrow> string option"
  json_parse :: "string \<Rightarrow> payload option"
  json_stringify :: "payload \<Rightarrow> string"
  get_user :: "string \<Rightarrow> string option"
  get_inbox :: "string \<Rightarrow> inbox_record list option"
  post :: "string \<Rightarrow> post_body \<Rightarrow> bool"
  entropy :: "nat \<Rightarrow> 8 word"
  now :: nat

text \<open>
  The state of the local machine: the groups file, whether the file system accepts a
  write, how many bytes of entropy were drawn so far, and the trace of events.
\<close>

record world =
  groups_json :: groups_file
  fs_writable :: bool
  drawn :: nat
  trace :: "event list"

section \<open>JavaScript and Node helpers\<close>

text \<open>\<^verbatim>\<open>!x\<close> is false exactly for a non-empty string.\<close>

definition truthy :: "string option \<Rightarrow> bool" where
  "truthy v = (case v of None \<Rightarrow> False | Some s \<Rightarrow> s \<noteq> [])"

text \<open>A value used as a property key or inside a template literal.\<close>

definition prop_key :: "string option \<Rightarrow> string" where
  "prop_key v = (case v of None \<Rightarrow> ''undefined'' | Some s \<Rightarrow> s)"

text \<open>\<^verbatim>\<open>s.split(':')\<close>.\<close>

fun split_colon :: "string \<Rightarrow> string list" where
  "split_colon [] = [[]]"
| "split_colon (c # cs) =
     (if c = CHR '':'' then [] # split_colon cs
      else (case split_colon cs of [] \<Rightarrow> [[c]] | p # ps \<Rightarrow> (c # p) # ps))"

text \<open>Array destructuring: the element at an index, \<^verbatim>\<open>undefined\<close> past the end.\<close>

fun at_index :: "'a list \<Rightarrow> nat \<Rightarrow> 'a option" where
  "at_index [] n = None"
| "at_index (x # xs) 0 = Some x"
| "at_index (x # xs) (Suc n) = at_index xs n"

text \<open>\<^verbatim>\<open>buf.toString('hex')\<close> and \<^verbatim>\<open>Buffer.from(s, 'hex')\<close>, which stops at the first
  pair that is not two hex digits.\<close>

definition hex_digit :: "nat \<Rightarrow> char" where
  "hex_digit n = ''0123456789abcdef'' ! n"

definition hex_value :: "char \<Rightarrow> nat option" where
  "hex_value c =
     (let n = (of_char c :: nat) in
      if 48 \<le> n \<and> n \<le> 57 then Some (n - 48)
      else if 97 \<le> n \<and> n \<le> 102 then Some (n - 87)
      else if 65 \<le> n \<and> n \<le> 70 then Some (n - 55)
      else None)"

definition to_hex :: "buffer \<Rightarrow> string" where
  "to_hex bs = concat (map (\<lambda>b. [hex_digit (unat b div 16), hex_digit (unat b mod 16)]) bs)"

fun from_hex :: "string \<Rightarrow> buffer" where
  "from_hex (a # b # cs) =
     (case hex_value a of
        None \<Rightarrow> []
      | Some x \<Rightarrow> (case hex_value b of
          None \<Rightarrow> []
        | Some y \<Rightarrow> of_nat (16 * x + y) # from_hex cs))"
| "from_hex cs = []"

text \<open>\<^verbatim>\<open>randomBytes(n)\<close>: the next \<open>n\<close> bytes of the entropy source.\<close>

definition randomBytes :: "env \<Rightarrow> nat \<Rightarrow> world \<Rightarrow> buffer \<times> world" where
  "randomBytes e n w =
     (map (entropy e) [drawn w ..< drawn w + n], w\<lparr>drawn := drawn w + n\<rparr>)"

definition emit :: "event \<Rightarrow> world \<Rightarrow> world" where
  "emit ev w = w\<lparr>trace := trace w @ [ev]\<rparr>"

section \<open>lib/constants.js and lib/helpers.ts\<close>

definition API_BASE_URL :: string where
  "API_BASE_URL = ''https://chat.openindex.ai/api''"

definition hashUsername :: "env \<Rightarrow> string \<Rightarrow> string" where
  "hashUsername e n = sha256 e (toLowerCase e n)"

definition hashGroupId :: "env \<Rightarrow> string \<Rightarrow> string \<Rightarrow> string" where
  "hashGroupId e groupName creatorPubKey =
     sha256 e (toLowerCase e groupName @ '':'' @ creatorPubKey)"

section \<open>lib/local.js: the group store\<close>

text \<open>
  The object \<open>allGroups\<close> that \<^verbatim>\<open>JSON.parse\<close> gives for the groups file is an ordinary
  object: besides its own properties (the entries of the file) it inherits the members of
  \<^verbatim>\<open>Object.prototype\<close>, whose names are listed here.
\<close>

definition prototype_names :: "string list" where
  "prototype_names =
     [''constructor'', ''__defineGetter__'', ''__defineSetter__'', ''hasOwnProperty'',
      ''__lookupGetter__'', ''__lookupSetter__'', ''isPrototypeOf'', ''propertyIsEnumerable'',
      ''toString'', ''valueOf'', ''__proto__'', ''toLocaleString'']"

text \<open>
  The read \<^verbatim>\<open>allGroups[groupName]\<close>: the own entry when there is one, else the inherited
  member for an inherited name, else \<^verbatim>\<open>undefined\<close>. An inherited member is a function
  (for \<^verbatim>\<open>__proto__\<close> the prototype object itself): it is truthy, none of the properties
  the program reads from a group is defined on it, and it has no enumerable own property
  for a spread to copy. It is therefore the group with every property undefined.
\<close>

definition get_property :: "(string \<times> group) list \<Rightarrow> string \<Rightarrow> group option" where
  "get_property gs n =
     (case map_of gs n of
        Some g \<Rightarrow> Some g
      | None \<Rightarrow> if List.member prototype_names n then Some empty_group else None)"

text \<open>
  The assignment \<^verbatim>\<open>allGroups[groupName] = v\<close>: it creates or updates the own property,
  except for the name \<^verbatim>\<open>__proto__\<close> when it is not an own property: then the assignment
  runs the inherited setter, which replaces the prototype of \<open>allGroups\<close> and adds no
  entry, so that \<^verbatim>\<open>JSON.stringify\<close> writes the entries that were there.
\<close>

definition set_property ::
  "string \<Rightarrow> group \<Rightarrow> (string \<times> group) list \<Rightarrow> (string \<times> group) list" where
  "set_property n v gs =
     (if n = ''__proto__'' \<and> map_of gs n = None then gs else AList.update n v gs)"

text \<open>
  \<^verbatim>\<open>saveGroup(groupName, groupData)\<close>. The argument \<open>groupData\<close> is the object spread
  \<^verbatim>\<open>{...allGroups[groupName], ...groupData}\<close> as a function of the existing entry (the empty
  object when there is none of its own). Every failure inside is caught, logged and
  answered with \<^verbatim>\<open>false\<close>.
\<close>

definition saveGroup :: "env \<Rightarrow> string \<Rightarrow> (group \<Rightarrow> group) \<Rightarrow> world \<Rightarrow> bool \<times> world" where
  "saveGroup e groupName groupData w =
     (case groups_json w of
        Corrupt \<Rightarrow> (False, emit (Console (ErrorLine ''Failed to save group locally'')) w)
      | Missing \<Rightarrow>
          (let allGroups = set_property groupName
                 ((groupData empty_group)\<lparr>updatedAt := Some (now e)\<rparr>) []
           in if fs_writable w
              then (True, emit (FsWrite allGroups) (w\<lparr>groups_json := Groups allGroups\<rparr>))
              else (False, emit (Console (ErrorLine ''Failed to save group locally'')) w))
      | Groups gs \<Rightarrow>
          (let existing = (case map_of gs groupName of None \<Rightarrow> empty_group | Some g \<Rightarrow> g);
               allGroups = set_property groupName
                 ((groupData existing)\<lparr>updatedAt := Some (now e)\<rparr>) gs
           in if fs_writable w
              then (True, emit (FsWrite allGroups) (w\<lparr>groups_json := Groups allGroups\<rparr>))
              else (False, emit (Console (ErrorLine ''Failed to save group locally'')) w)))"

text \<open>\<^verbatim>\<open>loadGroup(groupName)\<close>: \<^verbatim>\<open>allGroups[groupName] || null\<close>.\<close>

definition loadGroup :: "string \<Rightarrow> world \<Rightarrow> exn + group option" where
  "loadGroup groupName w =
     (case groups_json w of
        Missing \<Rightarrow> Inr None
      | Corrupt \<Rightarrow> Inl SyntaxError
      | Groups gs \<Rightarrow> Inr (get_property gs groupName))"

text \<open>
  The spread of a group object that was loaded from the file (every property it has is
  defined) over the existing entry.
\<close>

definition or_else :: "'a option \<Rightarrow> 'a option \<Rightarrow> 'a option" where
  "or_else a b = (case a of None \<Rightarrow> b | Some x \<Rightarrow> Some x)"

definition spread :: "group \<Rightarrow> group \<Rightarrow> group" where
  "spread g old =
     \<lparr>name = or_else (name g) (name old),
      groupInboxId = or_else (groupInboxId g) (groupInboxId old),
      creator = or_else (creator g) (creator old),
      myChainKey = or_else (myChainKey g) (myChainKey old),
      mySigningKey = or_else (mySigningKey g) (mySigningKey old),
      mySigningPubKey = or_else (mySigningPubKey g) (mySigningPubKey old),
      members = or_else (members g) (members old),
      memberKeys = or_else (memberKeys g) (memberKeys old),
      signingKeys = or_else (signingKeys g) (signingKeys old),
      updatedAt = or_else (updatedAt g) (updatedAt old)\<rparr>"

section \<open>lib/group.js: the ratchet and the redistribution of keys\<close>

record ratchet =
  messageKey :: buffer
  nextChainKey :: buffer

definition nextKey :: "env \<Rightarrow> buffer \<Rightarrow> ratchet" where
  "nextKey e currentChainKey =
     \<lparr>messageKey = hmac_sha256 e currentChainKey ''msg_key'',
      nextChainKey = hmac_sha256 e currentChainKey ''next_chain''\<rparr>"

text \<open>
  Sequencing: what follows a statement runs only when the statement completed normally;
  a \<^verbatim>\<open>return\<close> or an exception skips it.
\<close>

definition and_then :: "flow \<times> world \<Rightarrow> (world \<Rightarrow> flow \<times> world) \<Rightarrow> flow \<times> world" where
  "and_then r k =
     (case r of
        (Normal, w) \<Rightarrow> k w
      | (Return, w) \<Rightarrow> (Return, w)
      | (Throw ex, w) \<Rightarrow> (Throw ex, w))"

text \<open>A \<^verbatim>\<open>for (const x of xs)\<close> loop whose body may throw or return out of the action.\<close>

fun for_of :: "('a \<Rightarrow> world \<Rightarrow> flow \<times> world) \<Rightarrow> 'a list \<Rightarrow> world \<Rightarrow> flow \<times> world" where
  "for_of body [] w = (Normal, w)"
| "for_of body (x # xs) w = and_then (body x w) (\<lambda>w'. for_of body xs w')"

text \<open>The body of the loop of \<^verbatim>\<open>redistributeKeys\<close> for one member.\<close>

definition redistribute_to ::
  "env \<Rightarrow> string \<Rightarrow> string \<Rightarrow> group option \<Rightarrow> string \<Rightarrow> world \<Rightarrow> flow \<times> world" where
  "redistribute_to e privateKey groupId grp member w =
     (case grp of
        None \<Rightarrow> (Throw TypeError, w)
      | Some g \<Rightarrow>
          if Some member = creator g then (Normal, w)
          else
            (let url = API_BASE_URL @ ''/api/user/'' @ member;
                 w1 = emit (HttpGet url) w
             in case get_user e url of
                  None \<Rightarrow> (Throw FetchError, w1)
                | Some publicKey \<Rightarrow>
                    (let rotationNotice = json_stringify e
                           (no_payload\<lparr>p_type := Some ''GROUP_KEY_UPDATE'',
                              p_groupId := Some groupId,
                              p_chainKey := myChainKey g,
                              p_signingPubKey := mySigningPubKey g\<rparr>)
                     in case encryptWithPublicKey e publicKey rotationNotice of
                          None \<Rightarrow> (Throw CryptoError, w1)
                        | Some encrypted \<Rightarrow>
                            (case signMessage e privateKey encrypted of
                               None \<Rightarrow> (Throw CryptoError, w1)
                             | Some sig \<Rightarrow>
                                 (let body = \<lparr>recipientHash = Some (hashUsername e member),
                                        message = encrypted, signature = Some sig,
                                        senderId = None\<rparr>;
                                      send = API_BASE_URL @ ''/api/send''
                                  in if post e send body
                                     then (Normal, emit (HttpPost send body) w1)
                                     else (Throw FetchError,
                                           emit (HttpPostRejected send body) w1))))))"

text \<open>
  \<^verbatim>\<open>redistributeKeys(privateKey, groupId, members)\<close>: the group is read back from the
  store; \<open>members\<close> is the caller's array (iterating over \<^verbatim>\<open>undefined\<close> throws).
\<close>

definition redistributeKeys ::
  "env \<Rightarrow> string \<Rightarrow> string \<Rightarrow> string list option \<Rightarrow> world \<Rightarrow> flow \<times> world" where
  "redistributeKeys e privateKey groupId mems w =
     (case loadGroup groupId w of
        Inl ex \<Rightarrow> (Throw ex, w)
      | Inr grp \<Rightarrow>
          (case mems of
             None \<Rightarrow> (Throw TypeError, w)
           | Some ms \<Rightarrow> for_of (redistribute_to e privateKey groupId grp) ms w))"

section \<open>index.ts: get-messages\<close>

text \<open>
  The outer \<^verbatim>\<open>try { ... } catch (error) { console.error(label, error.message) }\<close> of a
  command's action.
\<close>

definition catch :: "string \<Rightarrow> flow \<times> world \<Rightarrow> flow \<times> world" where
  "catch label r =
     (case r of
        (Throw ex, w) \<Rightarrow> (Throw ex, emit (Console (ErrorLine label)) w)
      | (Return, w) \<Rightarrow> (Return, w)
      | (Normal, w) \<Rightarrow> (Normal, w))"

text \<open>
  The group branch of the loop body, for a record whose \<^verbatim>\<open>message\<close> is \<open>m\<close>. The whole
  branch sits in its own \<^verbatim>\<open>try { ... } catch { continue; }\<close>, so it always continues.
  For a \<open>senderId\<close> that is no own key of \<open>memberKeys\<close> the record is skipped: the
  lookup gives \<^verbatim>\<open>undefined\<close>, or, for a name inherited from \<^verbatim>\<open>Object.prototype\<close>, a
  function or object on which \<^verbatim>\<open>Buffer.from\<close> throws inside the \<^verbatim>\<open>try\<close>.
\<close>

definition process_group_message ::
  "env \<Rightarrow> group \<Rightarrow> inbox_record \<Rightarrow> string \<Rightarrow> world \<Rightarrow> world" where
  "process_group_message e g msg m w =
     (let parts = split_colon m in
      case at_index parts 0 of None \<Rightarrow> w | Some ivHex \<Rightarrow>
      (case at_index parts 1 of None \<Rightarrow> w | Some authTagHex \<Rightarrow>
      (case at_index parts 2 of None \<Rightarrow> w | Some ciphertext \<Rightarrow>
        if ivHex = [] \<or> authTagHex = [] \<or> ciphertext = [] then w
        else
          (case memberKeys g of
             None \<Rightarrow> w
           | Some keys \<Rightarrow>
               (case map_of keys (prop_key (r_senderId msg)) of
                  None \<Rightarrow> w
                | Some senderKey \<Rightarrow>
                    if senderKey = [] then w
                    else
                      (let chainKeyBuf = from_hex senderKey;
                           ks = nextKey e chainKeyBuf
                       in case aes_gcm_decrypt e (messageKey ks) ivHex authTagHex ciphertext of
                            None \<Rightarrow> w
                          | Some decrypted \<Rightarrow>
                              (case json_parse e decrypted of
                                 None \<Rightarrow> w
                               | Some p \<Rightarrow>
                                   emit (Console (Display (r_id msg) (p_createdAt p)
                                     (p_senderId p) (p_text p))) w)))))))"

text \<open>
  \<^verbatim>\<open>const { text, senderId, createdAt, ...data } = JSON.parse(decryptedJson)\<close>: the rest
  object \<open>data\<close> has every property but the three taken out.
\<close>

definition rest_data :: "payload \<Rightarrow> payload" where
  "rest_data p = p\<lparr>p_text := None, p_senderId := None, p_createdAt := None\<rparr>"

text \<open>The object literal \<^verbatim>\<open>{ [k]: v }\<close> as it is written to the file.\<close>

definition single_entry :: "string option \<Rightarrow> string option \<Rightarrow> (string \<times> string) list" where
  "single_entry k v = (case v of None \<Rightarrow> [] | Some x \<Rightarrow> [(prop_key k, x)])"

text \<open>The \<^verbatim>\<open>GROUP_LEAVE\<close> branch (index.ts, lines 1032 to 1061).\<close>

definition group_leave :: "env \<Rightarrow> string \<Rightarrow> payload \<Rightarrow> world \<Rightarrow> flow \<times> world" where
  "group_leave e key data w =
     (let w1 = emit (Console (Info (prop_key (p_senderId data) @ '' has left the group ''
                 @ prop_key (p_groupId data)))) w
      in case loadGroup (prop_key (p_groupId data)) w1 of
           Inl ex \<Rightarrow> (Throw ex, w1)
         | Inr None \<Rightarrow> (Return, w1)
         | Inr (Some g) \<Rightarrow>
             (let g1 = g\<lparr>members :=
                        map_option (filter (\<lambda>m. Some m \<noteq> p_senderId data)) (members g)\<rparr>
              in case memberKeys g1 of
                   None \<Rightarrow> (Throw TypeError, w1)
                 | Some mk \<Rightarrow>
                     (case signingKeys g1 of
                        None \<Rightarrow> (Throw TypeError, w1)
                      | Some sk \<Rightarrow>
                          (let g2 = g1\<lparr>memberKeys :=
                                      Some (AList.delete (prop_key (p_senderId data)) mk),
                                    signingKeys :=
                                      Some (AList.delete (prop_key (p_senderId data)) sk)\<rparr>;
                               (bytes, w2) = randomBytes e 32 w1;
                               newChainKey = to_hex bytes;
                               g3 = g2\<lparr>myChainKey := Some newChainKey\<rparr>;
                               (saved, w3) = saveGroup e (prop_key (p_groupId data)) (spread g3) w2;
                               w4 = emit (Console (Info ''Rotating keys for remaining members...'')) w3
                           in and_then
                                (redistributeKeys e key (prop_key (p_groupId data)) (members g3) w4)
                                (\<lambda>w5. (Normal,
                                   emit (Console (Info ''Group is now secure.'')) w5))))))"

text \<open>The one-to-one branch of the loop body, for a record whose \<^verbatim>\<open>message\<close> is \<open>m\<close>.\<close>

definition process_direct_message ::
  "env \<Rightarrow> string \<Rightarrow> inbox_record \<Rightarrow> string \<Rightarrow> world \<Rightarrow> flow \<times> world" where
  "process_direct_message e key msg m w =
     (case decryptWithPrivateKey e key m of
        None \<Rightarrow> (Throw CryptoError, w)
      | Some decryptedJson \<Rightarrow>
      (case json_parse e decryptedJson of
        None \<Rightarrow> (Throw SyntaxError, w)
      | Some p \<Rightarrow>
      (let text = p_text p; senderId = p_senderId p; createdAt = p_createdAt p;
           data = rest_data p
       in case r_signature msg of None \<Rightarrow> (Normal, w) | Some sig \<Rightarrow>
          (if sig = [] then (Normal, w)
          else
          (case verifyMessage e m sig of
             None \<Rightarrow> (Throw CryptoError, w)
           | Some recoveredAddress \<Rightarrow>
               if \<not> truthy senderId then
                 (if p_type data = Some ''GROUP_SETUP''
                  then (Normal, snd (saveGroup e (prop_key (p_groupId data))
                         (\<lambda>old. old\<lparr>name := p_groupId data,
                            groupInboxId := p_groupInboxId data,
                            creator := p_creator data,
                            memberKeys := Some (single_entry (p_creator data) (p_chainKey data)),
                            signingKeys :=
                              Some (single_entry (p_creator data) (p_signingPubKey data))\<rparr>) w))
                  else (Normal, w))
               else
                 (let url = API_BASE_URL @ ''/cli/user/'' @ prop_key senderId;
                      w1 = emit (HttpGet url) w
                  in case get_user e url of
                       None \<Rightarrow> (Throw FetchError, w1)
                     | Some sPubKey \<Rightarrow>
                         (case toAddress e sPubKey of
                            None \<Rightarrow> (Throw CryptoError, w1)
                          | Some expectedAddress \<Rightarrow>
                              if toLowerCase e recoveredAddress = toLowerCase e expectedAddress
                              then
                                (if \<not> truthy (p_type data)
                                 then (Normal, emit (Console (Display (r_id msg) createdAt
                                         senderId text)) w1)
                                 else (Normal, w1))
                              else if p_type data = Some ''GROUP_LEAVE''
                              then group_leave e key data w1
                              else (Normal, w1))))))))"

text \<open>The body of the loop over the fetched records; \<open>grp\<close> is what \<^verbatim>\<open>loadGroup(name)\<close> gave.\<close>

definition process_message ::
  "env \<Rightarrow> string \<Rightarrow> group option \<Rightarrow> inbox_record \<Rightarrow> world \<Rightarrow> flow \<times> world" where
  "process_message e key grp msg w =
     (case r_message msg of
        None \<Rightarrow> (Normal, w)
      | Some m \<Rightarrow>
          if m = [] then (Normal, w)
          else
            (case grp of
               Some g \<Rightarrow> (Normal, process_group_message e g msg m w)
             | None \<Rightarrow> process_direct_message e key msg m w))"

definition get_messages :: "env \<Rightarrow> string \<Rightarrow> string \<Rightarrow> world \<Rightarrow> flow \<times> world" where
  "get_messages e nm key w =
     catch ''Error''
       (if key = [] then (Throw (Error ''Private key is required''), w)
        else
          (case loadGroup nm w of
             Inl ex \<Rightarrow> (Throw ex, w)
           | Inr grp \<Rightarrow>
               (let inboxId = (case grp of Some g \<Rightarrow> groupInboxId g
                                         | None \<Rightarrow> Some (hashUsername e nm));
                    url = API_BASE_URL @ ''/cli/messages/'' @ prop_key inboxId;
                    w1 = emit (HttpGet url) w
                in case get_inbox e url of
                     None \<Rightarrow> (Throw FetchError, w1)
                   | Some messages \<Rightarrow> for_of (process_message e key grp) messages w1)))"

section \<open>index.ts: create-group and group-send\<close>

text \<open>The body of the distribution loop of \<^verbatim>\<open>create-group\<close> for one member.\<close>

definition distribute_to ::
  "env \<Rightarrow> string \<Rightarrow> payload \<Rightarrow> string \<Rightarrow> world \<Rightarrow> flow \<times> world" where
  "distribute_to e key setup member w =
     (let w0 = emit (Console (Info (''Distributing key to '' @ member))) w;
          url = API_BASE_URL @ ''/cli/user/'' @ member;
          w1 = emit (HttpGet url) w0
      in case get_user e url of
           None \<Rightarrow> (Throw FetchError, w1)
         | Some recipientPubKey \<Rightarrow>
             (let setupInfo = json_stringify e setup
              in case encryptWithPublicKey e recipientPubKey setupInfo of
                   None \<Rightarrow> (Throw CryptoError, w1)
                 | Some encrypted \<Rightarrow>
                     (case signMessage e key encrypted of
                        None \<Rightarrow> (Throw CryptoError, w1)
                      | Some sig \<Rightarrow>
                          (let body = \<lparr>recipientHash = Some (hashUsername e member),
                                 message = encrypted, signature = Some sig, senderId = None\<rparr>;
                               send = API_BASE_URL @ ''/cli/send''
                           in if post e send body
                              then (Normal, emit (HttpPost send body) w1)
                              else (Throw FetchError, emit (HttpPostRejected send body) w1)))))"

definition create_group :: "env \<Rightarrow> string \<Rightarrow> string list \<Rightarrow> string \<Rightarrow> world \<Rightarrow> flow \<times> world" where
  "create_group e groupName mems key w =
     catch ''Failed to create group''
       (let w0 = emit (Console (Info (''Creating group '' @ groupName))) w;
            (chainBytes, w1) = randomBytes e 32 w0;
            myChainKey' = to_hex chainBytes;
            (idBytes, w2) = randomBytes e 32 w1;
            (signingPriv, signingPub) = createIdentity e idBytes
        in case publicKeyByPrivateKey e key of
             None \<Rightarrow> (Throw CryptoError, w2)
           | Some creatorPubKey \<Rightarrow>
               (let groupInboxId' = hashGroupId e groupName creatorPubKey;
                    first = (case mems of [] \<Rightarrow> None | m # ms \<Rightarrow> Some m);
                    setup = no_payload\<lparr>p_type := Some ''GROUP_SETUP'',
                              p_groupId := Some groupName,
                              p_groupInboxId := Some groupInboxId',
                              p_creator := first,
                              p_chainKey := Some myChainKey',
                              p_signingPubKey := Some signingPub\<rparr>
                in and_then (for_of (distribute_to e key setup) mems w2)
                     (\<lambda>w3.
                       (let (saved, w4) = saveGroup e groupName
                              (\<lambda>old. old\<lparr>name := Some groupName,
                                 groupInboxId := Some groupInboxId',
                                 creator := first,
                                 myChainKey := Some myChainKey',
                                 mySigningKey := Some signingPriv,
                                 members := Some mems\<rparr>) w3
                        in (Normal,
                            emit (Console (Info ''Group created and keys distributed!'')) w4)))))"

definition group_send :: "env \<Rightarrow> string \<Rightarrow> string \<Rightarrow> world \<Rightarrow> flow \<times> world" where
  "group_send e groupName msg w =
     catch ''Group send failed''
       (case loadGroup groupName w of
          Inl ex \<Rightarrow> (Throw ex, w)
        | Inr None \<Rightarrow> (Throw (Error ''Group not found locally.''), w)
        | Inr (Some g) \<Rightarrow>
            (case myChainKey g of
               None \<Rightarrow> (Throw TypeError, w)
             | Some ck \<Rightarrow>
                 (let currentChainKey = from_hex ck;
                      ks = nextKey e currentChainKey;
                      (iv, w1) = randomBytes e 16 w;
                      payload = json_stringify e
                        (no_payload\<lparr>p_text := Some msg, p_senderId := creator g,
                           p_createdAt := Some (now e)\<rparr>);
                      (ciphertext, authTag) = aes_gcm_encrypt e (messageKey ks) iv payload;
                      encryptedBlob = to_hex iv @ '':'' @ authTag @ '':'' @ ciphertext
                  in case eth_sign e (mySigningKey g) encryptedBlob of
                       None \<Rightarrow> (Throw CryptoError, w1)
                     | Some sig \<Rightarrow>
                         (let g' = g\<lparr>myChainKey := Some (to_hex (nextChainKey ks))\<rparr>;
                              (saved, w2) = saveGroup e groupName (spread g') w1;
                              body = \<lparr>recipientHash = groupInboxId g,
                                message = encryptedBlob, signature = Some sig,
                                senderId = creator g\<rparr>;
                              send = API_BASE_URL @ ''/cli/send''
                          in if post e send body
                             then (Normal, emit (Console (Info ''Group message sent''))
                                     (emit (HttpPost send body) w2))
                             else (Throw FetchError, emit (HttpPostRejected send body) w2)))))"

section \<open>A concrete environment\<close>

text \<open>
  Stand-ins for the libraries and the relay, simple enough to compute with: a digest that
  wraps its input, a MAC that prefixes the key with the length of the data, an AEAD whose
  tag is the key in hex, envelopes and signatures that name their key, and a JSON printer
  with a table as its parser. Users are \<open>alice\<close>, \<open>bob\<close>, \<open>carol\<close> with keys
  \<open>sk_alice\<close> / \<open>pk_alice\<close> and address \<open>0xalice\<close>, and so on; the user \<open>nobody\<close> is
  not registered. The general theorems below hold for every environment; this one
  instantiates them.
\<close>

definition toy_field :: "string \<Rightarrow> string option \<Rightarrow> string" where
  "toy_field k v = (case v of None \<Rightarrow> [] | Some s \<Rightarrow> k @ ''='' @ s @ '';'')"

definition toy_stringify :: "payload \<Rightarrow> string" where
  "toy_stringify p =
     ''{'' @ toy_field ''type'' (p_type p) @ toy_field ''text'' (p_text p)
       @ toy_field ''senderId'' (p_senderId p)
       @ (case p_createdAt p of None \<Rightarrow> [] | Some t \<Rightarrow> ''createdAt;'')
       @ toy_field ''groupId'' (p_groupId p) @ toy_field ''groupInboxId'' (p_groupInboxId p)
       @ toy_field ''creator'' (p_creator p) @ toy_field ''chainKey'' (p_chainKey p)
       @ toy_field ''signingPubKey'' (p_signingPubKey p) @ ''}''"

definition last_segment :: "string \<Rightarrow> string" where
  "last_segment url = rev (takeWhile (\<lambda>c. c \<noteq> CHR ''/'') (rev url))"

definition leave_notice :: payload where
  "leave_notice = no_payload\<lparr>p_type := Some ''GROUP_LEAVE'', p_groupId := Some ''team'',
     p_senderId := Some ''carol''\<rparr>"

definition hello :: "string \<Rightarrow> payload" where
  "hello t = no_payload\<lparr>p_text := Some t, p_senderId := Some ''alice'',
     p_createdAt := Some 1000\<rparr>"

definition chain_key0 :: string where
  "chain_key0 = ''000102030405060708090a0b0c0d0e0f101112131415161718191a1b1c1d1e1f''"

definition chain_key1 :: string where
  "chain_key1 = ''404142434445464748494a4b4c4d4e4f505152535455565758595a5b5c5d5e5f''"

definition group_pub0 :: string where
  "group_pub0 = ''gpk_202122232425262728292a2b2c2d2e2f303132333435363738393a3b3c3d3e3f''"

definition group_priv0 :: string where
  "group_priv0 = ''gsk_202122232425262728292a2b2c2d2e2f303132333435363738393a3b3c3d3e3f''"

definition setup_payload :: payload where
  "setup_payload = no_payload\<lparr>p_type := Some ''GROUP_SETUP'', p_groupId := Some ''team'',
     p_groupInboxId := Some ''H(team:pk_alice)'', p_creator := Some ''alice'',
     p_chainKey := Some chain_key0, p_signingPubKey := Some group_pub0\<rparr>"

text \<open>Lower-casing of the letters A to Z, every other byte kept.\<close>

definition lower_char :: "char \<Rightarrow> char" where
  "lower_char c =
     (let n = (of_char c :: nat) in if 65 \<le> n \<and> n \<le> 90 then char_of (n + 32) else c)"

definition ascii_lower :: "string \<Rightarrow> string" where
  "ascii_lower s = map lower_char s"

definition toy :: env where
  "toy = \<lparr>toLowerCase = ascii_lower,
     sha256 = (\<lambda>s. ''H('' @ s @ '')''),
     hmac_sha256 = (\<lambda>k d. of_nat (length d) # k),
     aes_gcm_encrypt = (\<lambda>k iv pt. (pt, to_hex k)),
     aes_gcm_decrypt = (\<lambda>k iv tag ct. if tag = to_hex k then Some ct else None),
     encryptWithPublicKey =
       (\<lambda>pk pt. if pk = [] then None else Some (''E['' @ pk @ '']'' @ pt)),
     decryptWithPrivateKey =
       (\<lambda>sk c. let h = ''E[pk_'' @ drop 3 sk @ '']'' in
          if take (length h) c = h then Some (drop (length h) c) else None),
     signMessage =
       (\<lambda>sk m. if take 3 sk = ''sk_'' then Some (''S['' @ drop 3 sk @ '']'') else None),
     verifyMessage =
       (\<lambda>m s. if take 2 s = ''S[''
          then Some (''0x'' @ takeWhile (\<lambda>c. c \<noteq> CHR '']'') (drop 2 s)) else None),
     toAddress = (\<lambda>pk. if take 3 pk = ''pk_'' then Some (''0x'' @ drop 3 pk) else None),
     publicKeyByPrivateKey =
       (\<lambda>sk. if take 3 sk = ''sk_'' then Some (''pk_'' @ drop 3 sk) else None),
     createIdentity = (\<lambda>b. (''gsk_'' @ to_hex b, ''gpk_'' @ to_hex b)),
     eth_sign = (\<lambda>k m. case k of None \<Rightarrow> None | Some s \<Rightarrow> Some (''G['' @ s @ '']'')),
     json_parse = map_of [(toy_stringify leave_notice, leave_notice),
       (toy_stringify (hello ''one''), hello ''one''),
       (toy_stringify (hello ''two''), hello ''two''),
       (toy_stringify setup_payload, setup_payload)],
     json_stringify = toy_stringify,
     get_user = (\<lambda>url. if last_segment url = ''nobody'' then None
                       else Some (''pk_'' @ last_segment url)),
     get_inbox = (\<lambda>url. None),
     post = (\<lambda>url body. True),
     entropy = (\<lambda>i. of_nat i),
     now = 1000\<rparr>"

section \<open>Observations on traces and scenarios\<close>


text \<open>The bodies of the accepted POST requests of a trace, in order.\<close>

fun posted :: "event list \<Rightarrow> post_body list" where
  "posted [] = []"
| "posted (HttpPost url b # evs) = b # posted evs"
| "posted (ev # evs) = posted evs"

text \<open>The later world has the earlier world's trace as a prefix of its own.\<close>

definition extends :: "world \<Rightarrow> world \<Rightarrow> bool" where
  "extends w w' = (\<exists>evs. trace w' = trace w @ evs)"


text \<open>A machine with no groups file.\<close>

definition fresh_world :: world where
  "fresh_world = \<lparr>groups_json = Missing, fs_writable = True, drawn = 0, trace = []\<rparr>"



text \<open>
  Alice's machine: she created the group \<open>team\<close> with alice, bob and carol; her chain key
  is \<open>a0\<close>. Bob's machine: the entry his \<^verbatim>\<open>get-messages\<close> saved for the \<^verbatim>\<open>GROUP_SETUP\<close>
  message, with Alice's chain key \<open>a0\<close>.
\<close>

definition alice_group :: group where
  "alice_group = empty_group\<lparr>name := Some ''team'', groupInboxId := Some ''H(team:pk_alice)'',
     creator := Some ''alice'', myChainKey := Some ''a0'', mySigningKey := Some ''gsk'',
     members := Some [''alice'', ''bob'', ''carol''], updatedAt := Some 1000\<rparr>"

definition alice_world :: world where
  "alice_world = \<lparr>groups_json = Groups [(''team'', alice_group)],
     fs_writable = True, drawn = 0, trace = []\<rparr>"

definition bob_group :: group where
  "bob_group = empty_group\<lparr>name := Some ''team'', groupInboxId := Some ''H(team:pk_alice)'',
     creator := Some ''alice'', memberKeys := Some [(''alice'', ''a0'')],
     signingKeys := Some [(''alice'', ''gpk'')], updatedAt := Some 1000\<rparr>"

definition bob_world :: world where
  "bob_world = \<lparr>groups_json = Groups [(''team'', bob_group)],
     fs_writable = True, drawn = 0, trace = []\<rparr>"

text \<open>
  The two records of the group inbox after Alice sent \<open>one\<close> and then \<open>two\<close>: the first
  is sealed under the message key of chain key \<open>a0\<close>, the second under the message key of
  the next chain key.
\<close>

definition first_message :: string where
  "first_message = ''000102030405060708090a0b0c0d0e0f:07a0:'' @ toy_stringify (hello ''one'')"

definition second_message :: string where
  "second_message = ''101112131415161718191a1b1c1d1e1f:070aa0:'' @ toy_stringify (hello ''two'')"

definition group_record :: "string \<Rightarrow> string \<Rightarrow> inbox_record" where
  "group_record i m = \<lparr>r_message = Some m, r_signature = Some ''G[gsk]'',
     r_senderId = Some ''alice'', r_id = Some i\<rparr>"

definition relay_two :: env where
  "relay_two = toy\<lparr>get_inbox := (\<lambda>url.
      if last_segment url = ''H(team:pk_alice)''
      then Some [group_record ''1'' first_message, group_record ''2'' second_message]
      else None)\<rparr>"

text \<open>
  A one-to-one record for \<open>recipient\<close> carrying payload \<open>p\<close> with a signature of
  \<open>signer\<close>, and the environment whose relay holds the given records in one inbox.
\<close>

definition envelope :: "string \<Rightarrow> string \<Rightarrow> payload \<Rightarrow> string \<Rightarrow> inbox_record" where
  "envelope i recipient p signer =
     \<lparr>r_message = Some (''E[pk_'' @ recipient @ '']'' @ toy_stringify p),
      r_signature = Some (''S['' @ signer @ '']''), r_senderId = None, r_id = Some i\<rparr>"

definition junk :: inbox_record where
  "junk = \<lparr>r_message = Some ''junk'', r_signature = Some ''S[mallory]'', r_senderId = None,
     r_id = Some ''1''\<rparr>"

definition relay :: "string \<Rightarrow> inbox_record list \<Rightarrow> env" where
  "relay inbox records =
     toy\<lparr>get_inbox := (\<lambda>url. if last_segment url = inbox then Some records else None)\<rparr>"

text \<open>
  Alice's machine once she has run \<^verbatim>\<open>create-group team alice bob carol\<close> on a fresh
  machine and then read her own inbox, which holds the \<^verbatim>\<open>GROUP_SETUP\<close> record she posted
  to herself.
\<close>

definition ready_group :: group where
  "ready_group = \<lparr>name = Some ''team'', groupInboxId = Some ''H(team:pk_alice)'',
     creator = Some ''alice'', myChainKey = Some chain_key0, mySigningKey = Some group_priv0,
     mySigningPubKey = None, members = Some [''alice'', ''bob'', ''carol''],
     memberKeys = Some [(''alice'', chain_key0)], signingKeys = Some [(''alice'', group_pub0)],
     updatedAt = Some 1000\<rparr>"

definition alice_ready :: world where
  "alice_ready = \<lparr>groups_json = Groups [(''team'', ready_group)], fs_writable = True,
     drawn = 64, trace = []\<rparr>"

text \<open>The key update notice of \<^verbatim>\<open>redistributeKeys\<close> and the sealed record for one member:
  looked up, encrypted and signed, \<open>None\<close> when one of the steps throws.\<close>

definition key_update_notice :: "env \<Rightarrow> string \<Rightarrow> string option \<Rightarrow> string option \<Rightarrow> string" where
  "key_update_notice e gid chainKey signingPub =
     json_stringify e (no_payload\<lparr>p_type := Some ''GROUP_KEY_UPDATE'', p_groupId := Some gid,
        p_chainKey := chainKey, p_signingPubKey := signingPub\<rparr>)"

definition sealed_for :: "env \<Rightarrow> string \<Rightarrow> string \<Rightarrow> string \<Rightarrow> string \<Rightarrow> post_body option" where
  "sealed_for e key lookup member plaintext =
     (case get_user e (API_BASE_URL @ lookup @ member) of
        None \<Rightarrow> None
      | Some pk \<Rightarrow>
          (case encryptWithPublicKey e pk plaintext of
             None \<Rightarrow> None
           | Some enc \<Rightarrow>
               (case signMessage e key enc of
                  None \<Rightarrow> None
                | Some sig \<Rightarrow>
                    Some \<lparr>recipientHash = Some (hashUsername e member), message = enc,
                      signature = Some sig, senderId = None\<rparr>)))"

definition key_update_for :: "string \<Rightarrow> post_body" where
  "key_update_for member =
     \<lparr>recipientHash = Some (''H('' @ member @ '')''),
      message = ''E[pk_'' @ member @ '']{type=GROUP_KEY_UPDATE;groupId=team;chainKey=''
        @ chain_key1 @ '';}'',
      signature = Some ''S[alice]'', senderId = None\<rparr>"

text \<open>Whether the sealed record for a member is built and its POST is accepted.\<close>

definition delivered :: "env \<Rightarrow> string \<Rightarrow> string \<Rightarrow> string \<Rightarrow> string \<Rightarrow> string \<Rightarrow> bool" where
  "delivered e key lookup send member plaintext =
     (case sealed_for e key lookup member plaintext of
        None \<Rightarrow> False
      | Some b \<Rightarrow> post e (API_BASE_URL @ send) b)"

text \<open>The \<^verbatim>\<open>GROUP_SETUP\<close> payload that \<^verbatim>\<open>create-group\<close> builds when started in world \<open>w\<close>.\<close>

definition group_setup :: "env \<Rightarrow> string \<Rightarrow> string list \<Rightarrow> string \<Rightarrow> world \<Rightarrow> payload" where
  "group_setup e groupName mems creatorPubKey w =
     no_payload\<lparr>p_type := Some ''GROUP_SETUP'', p_groupId := Some groupName,
       p_groupInboxId := Some (hashGroupId e groupName creatorPubKey),
       p_creator := (case mems of [] \<Rightarrow> None | m # ms \<Rightarrow> Some m),
       p_chainKey := Some (to_hex (map (entropy e) [drawn w ..< drawn w + 32])),
       p_signingPubKey :=
         Some (snd (createIdentity e (map (entropy e) [drawn w + 32 ..< drawn w + 64])))\<rparr>"

text \<open>The entry stored under a name, the empty object when there is none.\<close>

definition stored :: "world \<Rightarrow> string \<Rightarrow> group" where
  "stored w n =
     (case groups_json w of
        Groups gs \<Rightarrow> (case map_of gs n of None \<Rightarrow> empty_group | Some g \<Rightarrow> g)
      | _ \<Rightarrow> empty_group)"

text \<open>A group inbox whose first record is not a wire triplet, and Bob's personal inbox
  with and without an undecryptable first record.\<close>

definition malformed_first :: env where
  "malformed_first = relay ''H(team:pk_alice)''
     [group_record ''0'' ''no-colons'', group_record ''1'' first_message]"

definition junk_first :: env where
  "junk_first = relay ''H(bob)'' [junk, envelope ''2'' ''bob'' (hello ''one'') ''alice'']"

definition letter_only :: env where
  "letter_only = relay ''H(bob)'' [envelope ''2'' ''bob'' (hello ''one'') ''alice'']"

text \<open>Alice's inbox holding a leave notice that names carol: once with a signature of
  mallory, once with carol's own.\<close>

definition forged_leave :: env where
  "forged_leave = relay ''H(alice)'' [envelope ''2'' ''alice'' leave_notice ''mallory'']"

definition genuine_leave :: env where
  "genuine_leave = relay ''H(alice)'' [envelope ''2'' ''alice'' leave_notice ''carol'']"

definition rotated_world :: world where
  "rotated_world =
     \<lparr>groups_json = Groups [(''team'', ready_group\<lparr>myChainKey := Some chain_key1\<rparr>)],
      fs_writable = True, drawn = 96,
      trace = [HttpGet (API_BASE_URL @ ''/cli/messages/H(alice)''),
        HttpGet (API_BASE_URL @ ''/cli/user/carol''),
        Console (Info ''undefined has left the group team''),
        FsWrite [(''team'', ready_group\<lparr>myChainKey := Some chain_key1\<rparr>)],
        Console (Info ''Rotating keys for remaining members...''),
        HttpGet (API_BASE_URL @ ''/api/user/bob''),
        HttpPost (API_BASE_URL @ ''/api/send'') (key_update_for ''bob''),
        HttpGet (API_BASE_URL @ ''/api/user/carol''),
        HttpPost (API_BASE_URL @ ''/api/send'') (key_update_for ''carol''),
        Console (Info ''Group is now secure.'')]\<rparr>"

text \<open>The wire string, the POST body and the advanced entry of a \<^verbatim>\<open>group-send\<close> started in
  world \<open>w\<close> with chain key \<open>ck\<close>.\<close>

definition group_blob :: "env \<Rightarrow> group \<Rightarrow> string \<Rightarrow> string \<Rightarrow> world \<Rightarrow> string" where
  "group_blob e g ck msg w =
     (let iv = map (entropy e) [drawn w ..< drawn w + 16];
          sealed = aes_gcm_encrypt e (messageKey (nextKey e (from_hex ck))) iv
            (json_stringify e (no_payload\<lparr>p_text := Some msg, p_senderId := creator g,
               p_createdAt := Some (now e)\<rparr>))
      in to_hex iv @ '':'' @ snd sealed @ '':'' @ fst sealed)"

definition group_body :: "env \<Rightarrow> group \<Rightarrow> string \<Rightarrow> string \<Rightarrow> world \<Rightarrow> string \<Rightarrow> post_body" where
  "group_body e g ck msg w sig =
     \<lparr>recipientHash = groupInboxId g, message = group_blob e g ck msg w,
      signature = Some sig, senderId = creator g\<rparr>"

definition advanced :: "env \<Rightarrow> group \<Rightarrow> string \<Rightarrow> group" where
  "advanced e g ck = g\<lparr>myChainKey := Some (to_hex (nextChainKey (nextKey e (from_hex ck))))\<rparr>"

text \<open>A relay that rejects every POST to bob's inbox; what \<^verbatim>\<open>create-group\<close> stores and
  posts in the concrete environment; Alice's machine with a file system that refuses
  writes.\<close>

definition bob_unreachable :: env where
  "bob_unreachable = toy\<lparr>post := (\<lambda>url b. recipientHash b \<noteq> Some ''H(bob)'')\<rparr>"

definition created_group :: group where
  "created_group = \<lparr>name = Some ''team'', groupInboxId = Some ''H(team:pk_alice)'',
     creator = Some ''alice'', myChainKey = Some chain_key0, mySigningKey = Some group_priv0,
     mySigningPubKey = None, members = Some [''alice'', ''bob'', ''carol''],
     memberKeys = None, signingKeys = None, updatedAt = Some 1000\<rparr>"

definition setup_for :: "string \<Rightarrow> post_body" where
  "setup_for member = \<lparr>recipientHash = Some (''H('' @ member @ '')''),
     message = ''E[pk_'' @ member @ '']'' @ toy_stringify setup_payload,
     signature = Some ''S[alice]'', senderId = None\<rparr>"

definition readonly_alice :: world where
  "readonly_alice = alice_world\<lparr>fs_writable := False\<rparr>"

definition first_body :: post_body where
  "first_body = \<lparr>recipientHash = Some ''H(team:pk_alice)'', message = first_message,
     signature = Some ''G[gsk]'', senderId = Some ''alice''\<rparr>"

definition reused_key_message :: string where
  "reused_key_message = ''101112131415161718191a1b1c1d1e1f:07a0:'' @ toy_stringify (hello ''two'')"

definition advanced_alice :: group where
  "advanced_alice = alice_group\<lparr>myChainKey := Some ''0aa0''\<rparr>"

text \<open>Alice's machine right after \<^verbatim>\<open>create-group team alice bob carol\<close>.\<close>

definition alice_created :: world where
  "alice_created = \<lparr>groups_json = Groups [(''team'', created_group)], fs_writable = True,
     drawn = 64, trace = []\<rparr>"

text \<open>
  A \<^verbatim>\<open>GROUP_SETUP\<close> payload for the group \<open>team\<close> that names mallory as creator,
  Alice's inbox holding it in an envelope signed by mallory, and the entry on Alice's
  machine once she has read that inbox.
\<close>

definition forged_setup :: payload where
  "forged_setup = no_payload\<lparr>p_type := Some ''GROUP_SETUP'', p_groupId := Some ''team'',
     p_groupInboxId := Some ''H(team:pk_mallory)'', p_creator := Some ''mallory'',
     p_chainKey := Some ''ee'', p_signingPubKey := Some ''gpk_m''\<rparr>"

definition forged_setup_relay :: env where
  "forged_setup_relay =
     (relay ''H(alice)'' [envelope ''3'' ''alice'' forged_setup ''mallory''])
       \<lparr>json_parse := map_of [(toy_stringify forged_setup, forged_setup)]\<rparr>"

definition overwritten_group :: group where
  "overwritten_group = created_group\<lparr>groupInboxId := Some ''H(team:pk_mallory)'',
     creator := Some ''mallory'', memberKeys := Some [(''mallory'', ''ee'')],
     signingKeys := Some [(''mallory'', ''gpk_m'')]\<rparr>"








section \<open>Blinded inbox ids\<close>





section \<open>Loops, sequencing and traces\<close>

lemma snd_and_then:
  "snd (and_then r k) = (if fst r = Normal then snd (k (snd r)) else snd r)"
  by (cases r; cases "fst r") (auto simp: and_then_def)

lemma fst_and_then:
  "fst (and_then r k) = (if fst r = Normal then fst (k (snd r)) else fst r)"
  by (cases r; cases "fst r") (auto simp: and_then_def)

lemma for_of_invariant:
  assumes "P w" and "\<And>x v. P v \<Longrightarrow> P (snd (body x v))"
  shows "P (snd (for_of body xs w))"
  using assms(1)
proof (induction xs arbitrary: w)
  case Nil
  then show ?case by simp
next
  case (Cons x xs)
  from Cons.prems assms(2) have "P (snd (body x w))" by blast
  with Cons.IH show ?case
    by (simp add: snd_and_then)
qed

lemma extends_refl [simp]: "extends w w"
  by (simp add: extends_def)

lemma extends_emit [simp]: "extends w v \<Longrightarrow> extends w (emit ev v)"
  by (auto simp: extends_def emit_def)

lemma extends_drawn [simp]: "extends w (v\<lparr>drawn := n\<rparr>) = extends w v"
  by (simp add: extends_def)

lemma extends_groups [simp]: "extends w (v\<lparr>groups_json := n\<rparr>) = extends w v"
  by (simp add: extends_def)



lemma extends_for_of:
  "(\<And>x v. extends w v \<Longrightarrow> extends w (snd (body x v))) \<Longrightarrow> extends w v
   \<Longrightarrow> extends w (snd (for_of body xs v))"
  by (rule for_of_invariant)

lemma extends_redistribute_to:
  "extends w v \<Longrightarrow> extends w (snd (redistribute_to e k gid grp m v))"
  by (simp add: redistribute_to_def Let_def split: option.splits)

lemma extends_redistributeKeys:
  "extends w v \<Longrightarrow> extends w (snd (redistributeKeys e k gid ms v))"
  by (simp add: redistributeKeys_def extends_for_of extends_redistribute_to
      split: sum.splits option.splits)







lemma catch_store: "groups_json (snd (catch l r)) = groups_json (snd r)"
  by (cases r; cases "fst r") (auto simp: catch_def emit_def split: flow.splits)


section \<open>get-messages: which inbox is read, and how\<close>

lemma fst_process_message_group: "fst (process_message e key (Some g) msg w) = Normal"
  by (simp add: process_message_def split: option.splits)

lemma for_of_group_foldl:
  "for_of (process_message e key (Some g)) ms w =
     (Normal, foldl (\<lambda>v msg. snd (process_message e key (Some g) msg v)) w ms)"
proof (induction ms arbitrary: w)
  case Nil
  then show ?case by simp
next
  case (Cons msg ms)
  obtain f v where r: "process_message e key (Some g) msg w = (f, v)"
    by (cases "process_message e key (Some g) msg w")
  with fst_process_message_group [of e key g msg w] have "f = Normal" by simp
  with r Cons.IH [of v] show ?case
    by (simp add: and_then_def)
qed













lemma split_colon_plain: "CHR '':'' \<notin> set a \<Longrightarrow> split_colon a = [a]"
  by (induction a) auto

lemma split_colon_append:
  "CHR '':'' \<notin> set a \<Longrightarrow> split_colon (a @ CHR '':'' # b) = a # split_colon b"
  by (induction a) auto

lemma split_colon_triplet:
  assumes "CHR '':'' \<notin> set iv" and "CHR '':'' \<notin> set tag" and "CHR '':'' \<notin> set ct"
  shows "split_colon (iv @ '':'' @ tag @ '':'' @ ct) = [iv, tag, ct]"
  using assms by (simp add: split_colon_append split_colon_plain)

text \<open>
  A wire triplet on the group path: the key is the one stored under the record's
  \<open>senderId\<close>, the message key is one ratchet step from it, and the record is displayed
  exactly when AES-GCM opens it under that message key and the plaintext is JSON.
\<close>

lemma process_group_message_triplet:
  assumes "CHR '':'' \<notin> set iv" and "CHR '':'' \<notin> set tag" and "CHR '':'' \<notin> set ct"
    and "iv \<noteq> []" and "tag \<noteq> []" and "ct \<noteq> []"
  shows "process_group_message e g msg (iv @ '':'' @ tag @ '':'' @ ct) w =
     (case memberKeys g of
        None \<Rightarrow> w
      | Some keys \<Rightarrow>
          (case map_of keys (prop_key (r_senderId msg)) of
             None \<Rightarrow> w
           | Some senderKey \<Rightarrow>
               if senderKey = [] then w
               else
                 (case aes_gcm_decrypt e (messageKey (nextKey e (from_hex senderKey))) iv tag ct of
                    None \<Rightarrow> w
                  | Some decrypted \<Rightarrow>
                      (case json_parse e decrypted of
                         None \<Rightarrow> w
                       | Some p \<Rightarrow>
                           emit (Console (Display (r_id msg) (p_createdAt p) (p_senderId p)
                             (p_text p))) w))))"
  using assms
  by (simp add: process_group_message_def split_colon_triplet Let_def numeral_2_eq_2
      del: append.simps append_assoc split: option.splits)



section \<open>get-messages: receiving group messages\<close>

lemma process_group_message_store:
  "groups_json (process_group_message e g msg m w) = groups_json w"
  by (simp add: process_group_message_def emit_def Let_def split: option.splits)

lemma process_message_group_store:
  "groups_json (snd (process_message e key (Some g) msg w)) = groups_json w"
  by (simp add: process_message_def process_group_message_store split: option.splits)

text \<open>
  Claim C3. The claim says that a received group message advances the sender's stored
  chain key and saves it. The code derives the message key from the stored chain key and
  drops the next chain key: reading a group inbox never changes the groups file, whatever
  the inbox holds. So the stored key for a sender is never advanced, every message of that
  sender is tried with the message key of the same chain key, and the sender's second
  message (sealed under the next key by \<^verbatim>\<open>group-send\<close>) is skipped.
\<close>

theorem group_receipt_leaves_store_unchanged:
  "loadGroup nm w = Inr (Some g) \<Longrightarrow>
     groups_json (snd (get_messages e nm key w)) = groups_json w"
proof -
  assume l: "loadGroup nm w = Inr (Some g)"
  have inv: "\<And>ms v. groups_json v = groups_json w \<Longrightarrow>
      groups_json (snd (for_of (process_message e key (Some g)) ms v)) = groups_json w"
    by (rule for_of_invariant) (simp_all add: process_message_group_store)
  show ?thesis
    using l by (simp add: get_messages_def catch_store Let_def emit_def inv split: option.splits)
qed

text \<open>
  The scenario: Alice sends \<open>one\<close> and \<open>two\<close> (the two records are exactly the messages
  her two \<^verbatim>\<open>group-send\<close> runs post); Bob, who holds her chain key \<open>a0\<close>, reads the group
  inbox. Only \<open>one\<close> is displayed, Bob's entry still holds \<open>a0\<close>, and reading again
  displays \<open>one\<close> again with the same key.
\<close>

theorem group_receipt_leaves_store_unchanged_witness:
  "loadGroup ''team'' bob_world = Inr (Some bob_group)
   \<and> map message (posted (trace (snd (group_send toy ''team'' ''two''
         (snd (group_send toy ''team'' ''one'' alice_world))))))
       = [first_message, second_message]
   \<and> get_messages relay_two ''team'' ''sk_bob'' bob_world =
       (Normal, bob_world\<lparr>trace :=
          [HttpGet (API_BASE_URL @ ''/cli/messages/H(team:pk_alice)''),
           Console (Display (Some ''1'') (Some 1000) (Some ''alice'') (Some ''one''))]\<rparr>)
   \<and> groups_json (snd (get_messages relay_two ''team'' ''sk_bob'' bob_world))
       = groups_json bob_world
   \<and> trace (snd (get_messages relay_two ''team'' ''sk_bob''
        (snd (get_messages relay_two ''team'' ''sk_bob'' bob_world)))) =
          [HttpGet (API_BASE_URL @ ''/cli/messages/H(team:pk_alice)''),
           Console (Display (Some ''1'') (Some 1000) (Some ''alice'') (Some ''one'')),
           HttpGet (API_BASE_URL @ ''/cli/messages/H(team:pk_alice)''),
           Console (Display (Some ''1'') (Some 1000) (Some ''alice'') (Some ''one''))]"
proof -
  have l: "loadGroup ''team'' bob_world = Inr (Some bob_group)"
    by code_simp
  have p: "map message (posted (trace (snd (group_send toy ''team'' ''two''
         (snd (group_send toy ''team'' ''one'' alice_world))))))
       = [first_message, second_message]"
    by code_simp
  have r: "get_messages relay_two ''team'' ''sk_bob'' bob_world =
       (Normal, bob_world\<lparr>trace :=
          [HttpGet (API_BASE_URL @ ''/cli/messages/H(team:pk_alice)''),
           Console (Display (Some ''1'') (Some 1000) (Some ''alice'') (Some ''one''))]\<rparr>)"
    by code_simp
  have again: "trace (snd (get_messages relay_two ''team'' ''sk_bob''
        (snd (get_messages relay_two ''team'' ''sk_bob'' bob_world)))) =
          [HttpGet (API_BASE_URL @ ''/cli/messages/H(team:pk_alice)''),
           Console (Display (Some ''1'') (Some 1000) (Some ''alice'') (Some ''one'')),
           HttpGet (API_BASE_URL @ ''/cli/messages/H(team:pk_alice)''),
           Console (Display (Some ''1'') (Some 1000) (Some ''alice'') (Some ''one''))]"
    by code_simp
  from group_receipt_leaves_store_unchanged [OF l]
  have "groups_json (snd (get_messages relay_two ''team'' ''sk_bob'' bob_world))
       = groups_json bob_world" .
  with l p r again show ?thesis by blast
qed

section \<open>get-messages: failures of single records\<close>

text \<open>
  Claim C5. On the group path the claim holds: every record of the fetch is processed in
  turn, whatever happened to the records before it (the loop is a fold and ends normally).
  On the one-to-one path it does not: an envelope that cannot be decrypted, or whose
  plaintext is not JSON, throws out of the loop into the command's outer handler, which
  prints one error; no later record of the fetch is processed.
\<close>

theorem per_message_failure:
  assumes "key \<noteq> []"
  shows "(loadGroup nm w = Inr (Some g) \<longrightarrow>
           get_inbox e (API_BASE_URL @ ''/cli/messages/'' @ prop_key (groupInboxId g)) = Some ms \<longrightarrow>
           get_messages e nm key w =
             (Normal, foldl (\<lambda>v msg. snd (process_message e key (Some g) msg v))
                (emit (HttpGet (API_BASE_URL @ ''/cli/messages/'' @ prop_key (groupInboxId g))) w) ms))
       \<and> (loadGroup nm w = Inr None \<longrightarrow>
           get_inbox e (API_BASE_URL @ ''/cli/messages/'' @ hashUsername e nm) = Some (bad # rest) \<longrightarrow>
           r_message bad = Some m \<longrightarrow> m \<noteq> [] \<longrightarrow>
           (decryptWithPrivateKey e key m = None \<longrightarrow>
              get_messages e nm key w =
                (Throw CryptoError, emit (Console (ErrorLine ''Error''))
                   (emit (HttpGet (API_BASE_URL @ ''/cli/messages/'' @ hashUsername e nm)) w)))
           \<and> (decryptWithPrivateKey e key m = Some j \<longrightarrow> json_parse e j = None \<longrightarrow>
              get_messages e nm key w =
                (Throw SyntaxError, emit (Console (ErrorLine ''Error''))
                   (emit (HttpGet (API_BASE_URL @ ''/cli/messages/'' @ hashUsername e nm)) w))))"
  using assms
  by (simp add: get_messages_def Let_def for_of_group_foldl catch_def prop_key_def
      process_message_def process_direct_message_def and_then_def)

text \<open>
  Bob's group inbox with a malformed first record still shows the second record. Bob's
  personal inbox with an undecryptable first record shows nothing of the letter behind
  it, which is displayed when it is alone in the inbox.
\<close>

theorem per_message_failure_witness:
  "''sk_bob'' \<noteq> []
   \<and> get_messages malformed_first ''team'' ''sk_bob'' bob_world =
       (Normal, bob_world\<lparr>trace :=
          [HttpGet (API_BASE_URL @ ''/cli/messages/H(team:pk_alice)''),
           Console (Display (Some ''1'') (Some 1000) (Some ''alice'') (Some ''one''))]\<rparr>)
   \<and> loadGroup ''bob'' fresh_world = Inr None
   \<and> get_inbox junk_first (API_BASE_URL @ ''/cli/messages/'' @ hashUsername junk_first ''bob'')
       = Some [junk, envelope ''2'' ''bob'' (hello ''one'') ''alice'']
   \<and> r_message junk = Some ''junk''
   \<and> decryptWithPrivateKey junk_first ''sk_bob'' ''junk'' = None
   \<and> get_messages junk_first ''bob'' ''sk_bob'' fresh_world =
       (Throw CryptoError, fresh_world\<lparr>trace :=
          [HttpGet (API_BASE_URL @ ''/cli/messages/H(bob)''), Console (ErrorLine ''Error'')]\<rparr>)
   \<and> get_messages letter_only ''bob'' ''sk_bob'' fresh_world =
       (Normal, fresh_world\<lparr>trace :=
          [HttpGet (API_BASE_URL @ ''/cli/messages/H(bob)''),
           HttpGet (API_BASE_URL @ ''/cli/user/alice''),
           Console (Display (Some ''2'') (Some 1000) (Some ''alice'') (Some ''one''))]\<rparr>)"
proof -
  have k: "''sk_bob'' \<noteq> []" by simp
  have g: "get_messages malformed_first ''team'' ''sk_bob'' bob_world =
       (Normal, bob_world\<lparr>trace :=
          [HttpGet (API_BASE_URL @ ''/cli/messages/H(team:pk_alice)''),
           Console (Display (Some ''1'') (Some 1000) (Some ''alice'') (Some ''one''))]\<rparr>)"
    by code_simp
  have l: "loadGroup ''bob'' fresh_world = Inr None" by code_simp
  have i: "get_inbox junk_first (API_BASE_URL @ ''/cli/messages/'' @ hashUsername junk_first ''bob'')
       = Some [junk, envelope ''2'' ''bob'' (hello ''one'') ''alice'']"
    by code_simp
  have m: "r_message junk = Some ''junk''" by code_simp
  have n: "''junk'' \<noteq> []" by simp
  have d: "decryptWithPrivateKey junk_first ''sk_bob'' ''junk'' = None" by code_simp
  have w: "emit (Console (ErrorLine ''Error''))
             (emit (HttpGet (API_BASE_URL @ ''/cli/messages/'' @ hashUsername junk_first ''bob''))
                fresh_world)
           = fresh_world\<lparr>trace :=
          [HttpGet (API_BASE_URL @ ''/cli/messages/H(bob)''), Console (ErrorLine ''Error'')]\<rparr>"
    by code_simp
  from per_message_failure [OF k, of "''bob''" fresh_world _ junk_first _ junk] l i m n d
  have "get_messages junk_first ''bob'' ''sk_bob'' fresh_world =
      (Throw CryptoError, emit (Console (ErrorLine ''Error''))
             (emit (HttpGet (API_BASE_URL @ ''/cli/messages/'' @ hashUsername junk_first ''bob''))
                fresh_world))"
    by blast
  then have a: "get_messages junk_first ''bob'' ''sk_bob'' fresh_world =
       (Throw CryptoError, fresh_world\<lparr>trace :=
          [HttpGet (API_BASE_URL @ ''/cli/messages/H(bob)''), Console (ErrorLine ''Error'')]\<rparr>)"
    by (simp only: w)
  have b: "get_messages letter_only ''bob'' ''sk_bob'' fresh_world =
       (Normal, fresh_world\<lparr>trace :=
          [HttpGet (API_BASE_URL @ ''/cli/messages/H(bob)''),
           HttpGet (API_BASE_URL @ ''/cli/user/alice''),
           Console (Display (Some ''2'') (Some 1000) (Some ''alice'') (Some ''one''))]\<rparr>)"
    by code_simp
  from k g l i m d a b show ?thesis by blast
qed

section \<open>get-messages: leave notices\<close>

text \<open>
  Claim C2. For a decrypted, signed \<^verbatim>\<open>GROUP_LEAVE\<close> notice whose sender is registered,
  the code acts on the notice exactly when the recovered signer address differs from the
  sender's address: with a matching signature the notice is ignored, with a mismatching
  one the leave branch runs. The claim says the opposite.
\<close>

theorem leave_acted_on_iff_signature_mismatch:
  assumes "decryptWithPrivateKey e key m = Some j" and "json_parse e j = Some p"
    and "p_senderId p = Some s" and "s \<noteq> []" and "p_type p = Some ''GROUP_LEAVE''"
    and "r_signature msg = Some sig" and "sig \<noteq> []"
    and "verifyMessage e m sig = Some recoveredAddress"
    and "get_user e (API_BASE_URL @ ''/cli/user/'' @ s) = Some sPubKey"
    and "toAddress e sPubKey = Some expectedAddress"
  shows "process_direct_message e key msg m w =
     (if toLowerCase e recoveredAddress = toLowerCase e expectedAddress
      then (Normal, emit (HttpGet (API_BASE_URL @ ''/cli/user/'' @ s)) w)
      else group_leave e key (rest_data p) (emit (HttpGet (API_BASE_URL @ ''/cli/user/'' @ s)) w))"
  using assms
  by (simp add: process_direct_message_def Let_def truthy_def prop_key_def rest_data_def)

text \<open>
  On Alice's machine: the notice signed by mallory rotates Alice's chain key and sends
  key updates; the same notice signed by carol herself changes nothing.
\<close>

theorem leave_acted_on_iff_signature_mismatch_witness:
  "verifyMessage toy (''E[pk_alice]'' @ toy_stringify leave_notice) ''S[mallory]'' = Some ''0xmallory''
   \<and> verifyMessage toy (''E[pk_alice]'' @ toy_stringify leave_notice) ''S[carol]'' = Some ''0xcarol''
   \<and> toAddress toy ''pk_carol'' = Some ''0xcarol''
   \<and> process_direct_message toy ''sk_alice'' (envelope ''2'' ''alice'' leave_notice ''mallory'')
        (''E[pk_alice]'' @ toy_stringify leave_notice) alice_ready
      = group_leave toy ''sk_alice'' (rest_data leave_notice)
          (emit (HttpGet (API_BASE_URL @ ''/cli/user/'' @ ''carol'')) alice_ready)
   \<and> process_direct_message toy ''sk_alice'' (envelope ''2'' ''alice'' leave_notice ''carol'')
        (''E[pk_alice]'' @ toy_stringify leave_notice) alice_ready
      = (Normal, emit (HttpGet (API_BASE_URL @ ''/cli/user/'' @ ''carol'')) alice_ready)
   \<and> get_messages forged_leave ''alice'' ''sk_alice'' alice_ready = (Normal, rotated_world)
   \<and> get_messages genuine_leave ''alice'' ''sk_alice'' alice_ready =
       (Normal, alice_ready\<lparr>trace := [HttpGet (API_BASE_URL @ ''/cli/messages/H(alice)''),
          HttpGet (API_BASE_URL @ ''/cli/user/carol'')]\<rparr>)"
proof -
  let ?m = "''E[pk_alice]'' @ toy_stringify leave_notice"
  have d: "decryptWithPrivateKey toy ''sk_alice'' ?m = Some (toy_stringify leave_notice)"
    by code_simp
  have j: "json_parse toy (toy_stringify leave_notice) = Some leave_notice"
    by code_simp
  have s: "p_senderId leave_notice = Some ''carol''" "''carol'' \<noteq> []"
    "p_type leave_notice = Some ''GROUP_LEAVE''"
    by code_simp+
  have sm: "r_signature (envelope ''2'' ''alice'' leave_notice ''mallory'') = Some ''S[mallory]''"
    "''S[mallory]'' \<noteq> []"
    by code_simp+
  have sc: "r_signature (envelope ''2'' ''alice'' leave_notice ''carol'') = Some ''S[carol]''"
    "''S[carol]'' \<noteq> []"
    by code_simp+
  have vm: "verifyMessage toy ?m ''S[mallory]'' = Some ''0xmallory''" by code_simp
  have vc: "verifyMessage toy ?m ''S[carol]'' = Some ''0xcarol''" by code_simp
  have u: "get_user toy (API_BASE_URL @ ''/cli/user/'' @ ''carol'') = Some ''pk_carol''"
    by code_simp
  have a: "toAddress toy ''pk_carol'' = Some ''0xcarol''" by code_simp
  have ne: "toLowerCase toy ''0xmallory'' \<noteq> toLowerCase toy ''0xcarol''" by code_simp
  from leave_acted_on_iff_signature_mismatch
    [OF d j s(1) s(2) s(3) sm(1) sm(2) vm u a, of alice_ready] ne
  have f: "process_direct_message toy ''sk_alice'' (envelope ''2'' ''alice'' leave_notice ''mallory'')
        ?m alice_ready
      = group_leave toy ''sk_alice'' (rest_data leave_notice)
          (emit (HttpGet (API_BASE_URL @ ''/cli/user/'' @ ''carol'')) alice_ready)"
    by simp
  from leave_acted_on_iff_signature_mismatch
    [OF d j s(1) s(2) s(3) sc(1) sc(2) vc u a, of alice_ready]
  have g: "process_direct_message toy ''sk_alice'' (envelope ''2'' ''alice'' leave_notice ''carol'')
        ?m alice_ready
      = (Normal, emit (HttpGet (API_BASE_URL @ ''/cli/user/'' @ ''carol'')) alice_ready)"
    by simp
  have rf: "get_messages forged_leave ''alice'' ''sk_alice'' alice_ready = (Normal, rotated_world)"
    by code_simp
  have rg: "get_messages genuine_leave ''alice'' ''sk_alice'' alice_ready =
       (Normal, alice_ready\<lparr>trace := [HttpGet (API_BASE_URL @ ''/cli/messages/H(alice)''),
          HttpGet (API_BASE_URL @ ''/cli/user/carol'')]\<rparr>)"
    by code_simp
  from vm vc a f g rf rg show ?thesis by blast
qed

section \<open>Hex strings and the store\<close>

lemma hex_digit_value: "n < 16 \<Longrightarrow> hex_value (hex_digit n) = Some n"
proof -
  have "\<forall>n<16. hex_value (hex_digit n) = Some n" by code_simp
  then show "n < 16 \<Longrightarrow> hex_value (hex_digit n) = Some n" by blast
qed

lemma from_hex_to_hex: "from_hex (to_hex bs) = bs"
proof (induction bs)
  case Nil
  then show ?case by (simp add: to_hex_def)
next
  case (Cons b bs)
  have d: "unat b div 16 < 16"
    using unsigned_less [of b, where ?'a = nat] by (simp add: less_mult_imp_div_less)
  have m: "unat b mod 16 < 16" by simp
  have "of_nat (16 * (unat b div 16) + unat b mod 16) = b"
    by simp
  with Cons d m show ?case
    by (simp add: to_hex_def hex_digit_value del: of_nat_add of_nat_mult)
qed

lemma get_property_own: "map_of gs n = Some g \<Longrightarrow> get_property gs n = Some g"
  by (simp add: get_property_def)

lemma set_property_own:
  "map_of gs n = Some g \<Longrightarrow> set_property n v gs = AList.update n v gs"
  by (simp add: set_property_def)

lemma set_property_plain:
  "n \<noteq> ''__proto__'' \<Longrightarrow> set_property n v gs = AList.update n v gs"
  by (simp add: set_property_def)

lemma get_property_set_property:
  "n \<noteq> ''__proto__'' \<Longrightarrow> get_property (set_property n v gs) n = Some v"
  by (simp add: set_property_plain get_property_def update_conv')

lemma saveGroup_writable:
  "groups_json w = Groups gs \<Longrightarrow> fs_writable w \<Longrightarrow>
   saveGroup e n d w =
     (let allGroups = set_property n
        ((d (case map_of gs n of None \<Rightarrow> empty_group | Some g \<Rightarrow> g))\<lparr>updatedAt := Some (now e)\<rparr>) gs
      in (True, emit (FsWrite allGroups) (w\<lparr>groups_json := Groups allGroups\<rparr>)))"
  by (simp add: saveGroup_def Let_def)

lemma saveGroup_loaded:
  assumes "fs_writable w" and "groups_json w \<noteq> Corrupt" and "n \<noteq> ''__proto__''"
  shows "loadGroup n (snd (saveGroup e n d w)) =
           Inr (Some ((d (stored w n))\<lparr>updatedAt := Some (now e)\<rparr>))"
  using assms
  by (cases "groups_json w")
     (simp_all add: saveGroup_def loadGroup_def stored_def emit_def Let_def
        get_property_set_property)

lemma groups_emit [simp]: "groups_json (emit ev w) = groups_json w"
  by (simp add: emit_def)

lemma redistribute_to_store:
  "groups_json (snd (redistribute_to e k gid grp m w)) = groups_json w"
  by (simp add: redistribute_to_def Let_def split: option.splits)

lemma redistributeKeys_store:
  "groups_json (snd (redistributeKeys e k gid ms w)) = groups_json w"
proof -
  have "\<And>grp xs. groups_json (snd (for_of (redistribute_to e k gid grp) xs w)) = groups_json w"
    by (rule for_of_invariant) (simp_all add: redistribute_to_store)
  then show ?thesis
    by (simp add: redistributeKeys_def split: sum.splits option.splits)
qed

lemma posted_append: "posted (xs @ ys) = posted xs @ posted ys"
  by (induction xs rule: posted.induct) simp_all

lemma posted_emit_console [simp]: "posted (trace (emit (Console l) w)) = posted (trace w)"
  by (simp add: emit_def posted_append)

lemma posted_emit_get [simp]: "posted (trace (emit (HttpGet u) w)) = posted (trace w)"
  by (simp add: emit_def posted_append)

lemma posted_emit_write [simp]: "posted (trace (emit (FsWrite gs) w)) = posted (trace w)"
  by (simp add: emit_def posted_append)

lemma posted_emit_rejected [simp]:
  "posted (trace (emit (HttpPostRejected u b) w)) = posted (trace w)"
  by (simp add: emit_def posted_append)

lemma posted_emit_post [simp]:
  "posted (trace (emit (HttpPost u b) w)) = posted (trace w) @ [b]"
  by (simp add: emit_def posted_append)

lemma saveGroup_posted [simp]: "posted (trace (snd (saveGroup e n d w))) = posted (trace w)"
  by (cases "groups_json w") (simp_all add: saveGroup_def Let_def)

lemma trace_catch_last:
  "fst r = Throw ex \<Longrightarrow> trace (snd (catch l r)) = trace (snd r) @ [Console (ErrorLine l)]"
  by (cases r) (auto simp: catch_def emit_def)

lemma fst_catch [simp]: "fst (catch l r) = fst r"
  by (cases r; cases "fst r") (auto simp: catch_def)

lemma posted_catch [simp]: "posted (trace (snd (catch l r))) = posted (trace (snd r))"
  by (cases r; cases "fst r") (auto simp: catch_def)

section \<open>The leave branch: what is persisted\<close>

text \<open>
  The leave branch when the group is stored with its \<open>memberKeys\<close> and \<open>signingKeys\<close>
  and the file can be written: the steps before the redistribution, written out.
\<close>

lemma group_leave_unfold:
  assumes "groups_json w = Groups gs" and "map_of gs (prop_key (p_groupId p)) = Some g"
    and "memberKeys g = Some mk" and "signingKeys g = Some sk" and "fs_writable w"
  shows "\<exists>g' w4.
       group_leave e key (rest_data p) w =
         and_then (redistributeKeys e key (prop_key (p_groupId p)) (members g) w4)
           (\<lambda>w5. (Normal, emit (Console (Info ''Group is now secure.'')) w5))
     \<and> loadGroup (prop_key (p_groupId p)) w4 = Inr (Some g')
     \<and> members g' = members g \<and> creator g' = creator g
     \<and> mySigningPubKey g' = mySigningPubKey g
     \<and> memberKeys g' = Some (AList.delete ''undefined'' mk)
     \<and> signingKeys g' = Some (AList.delete ''undefined'' sk)
     \<and> myChainKey g' = Some (to_hex (map (entropy e) [drawn w ..< drawn w + 32]))
     \<and> groups_json w4 = Groups (AList.update (prop_key (p_groupId p)) g' gs)
     \<and> trace w4 = trace w @
          [Console (Info (''undefined has left the group '' @ prop_key (p_groupId p))),
           FsWrite (AList.update (prop_key (p_groupId p)) g' gs),
           Console (Info ''Rotating keys for remaining members...'')]"
proof -
  let ?gid = "prop_key (p_groupId p)"
  let ?w1 = "emit (Console (Info (''undefined has left the group '' @ ?gid))) w"
  let ?new = "to_hex (map (entropy e) [drawn w ..< drawn w + 32])"
  let ?g3 = "g\<lparr>members := map_option (filter (\<lambda>m. Some m \<noteq> None)) (members g),
               memberKeys := Some (AList.delete ''undefined'' mk),
               signingKeys := Some (AList.delete ''undefined'' sk),
               myChainKey := Some ?new\<rparr>"
  let ?g' = "(spread ?g3 g)\<lparr>updatedAt := Some (now e)\<rparr>"
  let ?gs' = "AList.update ?gid ?g' gs"
  let ?w2 = "?w1\<lparr>drawn := drawn w + 32\<rparr>"
  let ?w3 = "emit (FsWrite ?gs') (?w2\<lparr>groups_json := Groups ?gs'\<rparr>)"
  let ?w4 = "emit (Console (Info ''Rotating keys for remaining members...'')) ?w3"
  have mem: "map_option (filter (\<lambda>m. Some m \<noteq> None)) (members g) = members g"
    by (cases "members g") simp_all
  have save: "saveGroup e ?gid (spread ?g3) ?w2 = (True, ?w3)"
    using assms by (simp add: saveGroup_writable set_property_own emit_def Let_def)
  define w4 where "w4 = ?w4"
  have "group_leave e key (rest_data p) w =
      and_then (redistributeKeys e key ?gid (members ?g3) ?w4)
        (\<lambda>w5. (Normal, emit (Console (Info ''Group is now secure.'')) w5))"
    using assms save
    by (simp add: group_leave_def rest_data_def prop_key_def loadGroup_def get_property_own
        emit_def randomBytes_def Let_def)
  then have r0: "group_leave e key (rest_data p) w =
      and_then (redistributeKeys e key ?gid (members ?g3) w4)
        (\<lambda>w5. (Normal, emit (Console (Info ''Group is now secure.'')) w5))"
    by (simp only: w4_def)
  have m3: "members ?g3 = members g"
    by (cases "members g") simp_all
  have "group_leave e key (rest_data p) w =
      and_then (redistributeKeys e key ?gid (members g) w4)
        (\<lambda>w5. (Normal, emit (Console (Info ''Group is now secure.'')) w5))"
    using r0 by (simp only: m3)
  then have run: "group_leave e key (rest_data p) w =
      and_then (redistributeKeys e key ?gid (members g) ?w4)
        (\<lambda>w5. (Normal, emit (Console (Info ''Group is now secure.'')) w5))"
    by (simp only: w4_def)
  have look: "loadGroup ?gid ?w4 = Inr (Some ?g')"
    by (simp add: loadGroup_def get_property_def emit_def update_conv')
  have fields: "members ?g' = members g" "creator ?g' = creator g"
    "mySigningPubKey ?g' = mySigningPubKey g"
    "memberKeys ?g' = Some (AList.delete ''undefined'' mk)"
    "signingKeys ?g' = Some (AList.delete ''undefined'' sk)"
    "myChainKey ?g' = Some ?new"
    by (simp_all add: spread_def or_else_def mem split: option.splits)
  have store: "groups_json ?w4 = Groups ?gs'"
    by (simp add: emit_def)
  have tr: "trace ?w4 = trace w @
          [Console (Info (''undefined has left the group '' @ ?gid)), FsWrite ?gs',
           Console (Info ''Rotating keys for remaining members...'')]"
    by (simp add: emit_def)
  from run look fields store tr show ?thesis by blast
qed

text \<open>
  Claim C1. The claim says that the persisted state has the leaver removed from
  \<open>members\<close>, \<open>memberKeys\<close> and \<open>signingKeys\<close>. The branch reads the leaver's name from
  \<^verbatim>\<open>data.senderId\<close>, but \<open>data\<close> is the rest object of a destructuring that took
  \<open>senderId\<close> out, so the name is always \<^verbatim>\<open>undefined\<close>: whoever the notice names, the
  persisted \<open>members\<close> are the old \<open>members\<close> and only a key literally called
  \<open>undefined\<close> is deleted from the two key maps. The rest of the claim holds: the new chain
  key is 32 fresh bytes of the entropy source in hex, whatever the old key was, and the
  state is written before anything of the redistribution happens.
\<close>

theorem leave_keeps_the_leaver:
  assumes "groups_json w = Groups gs" and "map_of gs (prop_key (p_groupId p)) = Some g"
    and "memberKeys g = Some mk" and "signingKeys g = Some sk" and "fs_writable w"
  shows "\<exists>g' gs' rest.
           loadGroup (prop_key (p_groupId p)) (snd (group_leave e key (rest_data p) w)) = Inr (Some g')
         \<and> members g' = members g
         \<and> memberKeys g' = Some (AList.delete ''undefined'' mk)
         \<and> signingKeys g' = Some (AList.delete ''undefined'' sk)
         \<and> myChainKey g' = Some (to_hex (map (entropy e) [drawn w ..< drawn w + 32]))
         \<and> length (from_hex (to_hex (map (entropy e) [drawn w ..< drawn w + 32]))) = 32
         \<and> map_of gs' (prop_key (p_groupId p)) = Some g'
         \<and> trace (snd (group_leave e key (rest_data p) w)) =
             trace w @ [Console (Info (''undefined has left the group '' @ prop_key (p_groupId p))),
                        FsWrite gs',
                        Console (Info ''Rotating keys for remaining members...'')] @ rest"
proof -
  let ?gid = "prop_key (p_groupId p)"
  from group_leave_unfold [OF assms, of e key] obtain g' w4 where
    run: "group_leave e key (rest_data p) w =
         and_then (redistributeKeys e key ?gid (members g) w4)
           (\<lambda>w5. (Normal, emit (Console (Info ''Group is now secure.'')) w5))"
    and look: "loadGroup ?gid w4 = Inr (Some g')"
    and fields: "members g' = members g" "memberKeys g' = Some (AList.delete ''undefined'' mk)"
      "signingKeys g' = Some (AList.delete ''undefined'' sk)"
      "myChainKey g' = Some (to_hex (map (entropy e) [drawn w ..< drawn w + 32]))"
    and store: "groups_json w4 = Groups (AList.update ?gid g' gs)"
    and tr: "trace w4 = trace w @
          [Console (Info (''undefined has left the group '' @ ?gid)),
           FsWrite (AList.update ?gid g' gs),
           Console (Info ''Rotating keys for remaining members...'')]"
    by blast
  have "groups_json (snd (group_leave e key (rest_data p) w)) = groups_json w4"
    by (simp add: run snd_and_then redistributeKeys_store)
  with look have 1: "loadGroup ?gid (snd (group_leave e key (rest_data p) w)) = Inr (Some g')"
    by (simp add: loadGroup_def)
  have "extends w4 (snd (group_leave e key (rest_data p) w))"
    by (simp add: run snd_and_then extends_redistributeKeys)
  then obtain rest where "trace (snd (group_leave e key (rest_data p) w)) = trace w4 @ rest"
    by (auto simp: extends_def)
  with tr have 2: "trace (snd (group_leave e key (rest_data p) w)) =
             trace w @ [Console (Info (''undefined has left the group '' @ ?gid)),
                        FsWrite (AList.update ?gid g' gs),
                        Console (Info ''Rotating keys for remaining members...'')] @ rest"
    by simp
  have 3: "length (from_hex (to_hex (map (entropy e) [drawn w ..< drawn w + 32]))) = 32"
    by (simp add: from_hex_to_hex)
  have 4: "map_of (AList.update ?gid g' gs) ?gid = Some g'"
    by (simp add: update_conv')
  from 1 2 3 4 fields show ?thesis by blast
qed

text \<open>
  On Alice's machine the notice names carol. Afterwards carol is still a member, the
  stored entry differs from the old one in the chain key only, and carol is among the
  recipients of the new key.
\<close>

theorem leave_keeps_the_leaver_witness:
  "groups_json alice_ready = Groups [(''team'', ready_group)]
   \<and> map_of [(''team'', ready_group)] (prop_key (p_groupId leave_notice)) = Some ready_group
   \<and> memberKeys ready_group = Some [(''alice'', chain_key0)]
   \<and> signingKeys ready_group = Some [(''alice'', group_pub0)]
   \<and> fs_writable alice_ready
   \<and> p_senderId leave_notice = Some ''carol''
   \<and> (\<exists>g'. loadGroup ''team'' (snd (group_leave toy ''sk_alice'' (rest_data leave_notice) alice_ready))
              = Inr (Some g')
           \<and> members g' = Some [''alice'', ''bob'', ''carol''])
   \<and> loadGroup ''team'' (snd (get_messages forged_leave ''alice'' ''sk_alice'' alice_ready))
       = Inr (Some (ready_group\<lparr>myChainKey := Some chain_key1\<rparr>))"
proof -
  have h: "groups_json alice_ready = Groups [(''team'', ready_group)]"
    "map_of [(''team'', ready_group)] (prop_key (p_groupId leave_notice)) = Some ready_group"
    "memberKeys ready_group = Some [(''alice'', chain_key0)]"
    "signingKeys ready_group = Some [(''alice'', group_pub0)]"
    "fs_writable alice_ready"
    by code_simp+
  have n: "p_senderId leave_notice = Some ''carol''" "prop_key (p_groupId leave_notice) = ''team''"
    "members ready_group = Some [''alice'', ''bob'', ''carol'']"
    by code_simp+
  from leave_keeps_the_leaver [OF h, of toy "''sk_alice''"] n(2,3)
  have a: "\<exists>g'. loadGroup ''team'' (snd (group_leave toy ''sk_alice'' (rest_data leave_notice) alice_ready))
              = Inr (Some g')
           \<and> members g' = Some [''alice'', ''bob'', ''carol'']"
    by auto
  have b: "loadGroup ''team'' (snd (get_messages forged_leave ''alice'' ''sk_alice'' alice_ready))
       = Inr (Some (ready_group\<lparr>myChainKey := Some chain_key1\<rparr>))"
    by code_simp
  from h n(1) a b show ?thesis by blast
qed

section \<open>The leave branch: who receives the new key\<close>

lemma redistribute_to_self:
  "Some m = creator g \<Longrightarrow> redistribute_to e key gid (Some g) m w = (Normal, w)"
  by (simp add: redistribute_to_def)

lemma redistribute_to_delivered:
  assumes "Some m \<noteq> creator g"
    and "delivered e key ''/api/user/'' ''/api/send'' m
           (key_update_notice e gid (myChainKey g) (mySigningPubKey g))"
  shows "fst (redistribute_to e key gid (Some g) m w) = Normal
       \<and> posted (trace (snd (redistribute_to e key gid (Some g) m w))) =
           posted (trace w) @ [the (sealed_for e key ''/api/user/'' m
              (key_update_notice e gid (myChainKey g) (mySigningPubKey g)))]"
  using assms
  by (auto simp: redistribute_to_def delivered_def sealed_for_def key_update_notice_def Let_def
      split: option.splits)

lemma redistribute_all:
  assumes "\<forall>m\<in>set ms. Some m \<noteq> creator g \<longrightarrow>
             delivered e key ''/api/user/'' ''/api/send'' m
               (key_update_notice e gid (myChainKey g) (mySigningPubKey g))"
  shows "fst (for_of (redistribute_to e key gid (Some g)) ms w) = Normal
       \<and> posted (trace (snd (for_of (redistribute_to e key gid (Some g)) ms w))) =
           posted (trace w) @
           map (\<lambda>m. the (sealed_for e key ''/api/user/'' m
                  (key_update_notice e gid (myChainKey g) (mySigningPubKey g))))
             (filter (\<lambda>m. Some m \<noteq> creator g) ms)"
  using assms
proof (induction ms arbitrary: w)
  case Nil
  then show ?case by simp
next
  case (Cons m ms)
  from Cons.prems have rest: "\<forall>m\<in>set ms. Some m \<noteq> creator g \<longrightarrow>
             delivered e key ''/api/user/'' ''/api/send'' m
               (key_update_notice e gid (myChainKey g) (mySigningPubKey g))"
    by simp
  show ?case
  proof (cases "Some m = creator g")
    case True
    with Cons.IH [OF rest] show ?thesis
      by (simp add: redistribute_to_self and_then_def)
  next
    case False
    with Cons.prems have d: "delivered e key ''/api/user/'' ''/api/send'' m
               (key_update_notice e gid (myChainKey g) (mySigningPubKey g))"
      by simp
    from redistribute_to_delivered [OF False d, of w]
      Cons.IH [OF rest, of "snd (redistribute_to e key gid (Some g) m w)"] False
    show ?thesis
      by (simp add: fst_and_then snd_and_then)
  qed
qed

text \<open>
  Claim C7. The claim says that the key update carries the group id, the new chain key
  and the group signing public key, and goes to every remaining member except the local
  party and to no one else. When every member other than the stored \<open>creator\<close> can be
  reached, the records posted by the leave branch are the sealed key updates for all stored
  \<open>members\<close> other than the stored \<open>creator\<close>, in order. The list is the one from before
  the notice, leaver included, so the member who left is a recipient of the new chain key. The
  payload's \<open>signingPubKey\<close> is the entry's \<open>mySigningPubKey\<close>, a property that no command
  ever stores, so it is absent from the payload. The party skipped is the stored
  \<open>creator\<close>, which is the local party only on the creator's own machine.
\<close>

theorem key_update_recipients:
  assumes "groups_json w = Groups gs" and "map_of gs (prop_key (p_groupId p)) = Some g"
    and "memberKeys g = Some mk" and "signingKeys g = Some sk" and "fs_writable w"
    and "members g = Some ms"
    and "\<forall>m\<in>set ms. Some m \<noteq> creator g \<longrightarrow>
           delivered e key ''/api/user/'' ''/api/send'' m
             (key_update_notice e (prop_key (p_groupId p))
                (Some (to_hex (map (entropy e) [drawn w ..< drawn w + 32])))
                (mySigningPubKey g))"
  shows "fst (group_leave e key (rest_data p) w) = Normal
       \<and> posted (trace (snd (group_leave e key (rest_data p) w))) =
           posted (trace w) @
           map (\<lambda>m. the (sealed_for e key ''/api/user/'' m
                  (key_update_notice e (prop_key (p_groupId p))
                     (Some (to_hex (map (entropy e) [drawn w ..< drawn w + 32])))
                     (mySigningPubKey g))))
             (filter (\<lambda>m. Some m \<noteq> creator g) ms)"
proof -
  let ?gid = "prop_key (p_groupId p)"
  let ?new = "to_hex (map (entropy e) [drawn w ..< drawn w + 32])"
  from group_leave_unfold [OF assms(1-5), of e key] obtain g' w4 where
    run: "group_leave e key (rest_data p) w =
         and_then (redistributeKeys e key ?gid (members g) w4)
           (\<lambda>w5. (Normal, emit (Console (Info ''Group is now secure.'')) w5))"
    and look: "loadGroup ?gid w4 = Inr (Some g')"
    and fields: "creator g' = creator g" "mySigningPubKey g' = mySigningPubKey g"
      "myChainKey g' = Some ?new"
    and tr: "trace w4 = trace w @
          [Console (Info (''undefined has left the group '' @ ?gid)),
           FsWrite (AList.update ?gid g' gs),
           Console (Info ''Rotating keys for remaining members...'')]"
    by blast
  have loop: "redistributeKeys e key ?gid (members g) w4 =
      for_of (redistribute_to e key ?gid (Some g')) ms w4"
    using assms(6) look by (simp add: redistributeKeys_def)
  from assms(7) have all: "\<forall>m\<in>set ms. Some m \<noteq> creator g' \<longrightarrow>
           delivered e key ''/api/user/'' ''/api/send'' m
             (key_update_notice e ?gid (myChainKey g') (mySigningPubKey g'))"
    by (simp only: fields)
  from redistribute_all [OF all, of w4]
  have r: "fst (for_of (redistribute_to e key ?gid (Some g')) ms w4) = Normal"
     "posted (trace (snd (for_of (redistribute_to e key ?gid (Some g')) ms w4))) =
           posted (trace w4) @
           map (\<lambda>m. the (sealed_for e key ''/api/user/'' m
                  (key_update_notice e ?gid (myChainKey g') (mySigningPubKey g'))))
             (filter (\<lambda>m. Some m \<noteq> creator g') ms)"
    by blast+
  have p4: "posted (trace w4) = posted (trace w)"
    by (simp add: tr posted_append)
  from r(1) have "fst (group_leave e key (rest_data p) w) = Normal"
    by (simp only: run loop fst_and_then) simp
  moreover from r have "posted (trace (snd (group_leave e key (rest_data p) w))) =
           posted (trace w) @
           map (\<lambda>m. the (sealed_for e key ''/api/user/'' m
                  (key_update_notice e ?gid (Some ?new) (mySigningPubKey g))))
             (filter (\<lambda>m. Some m \<noteq> creator g) ms)"
    by (simp only: run loop snd_and_then fields p4 [symmetric])
       (simp add: emit_def posted_append)
  ultimately show ?thesis by blast
qed

text \<open>
  On Alice's machine, after the notice that names carol: the records posted are a key
  update for bob and one for carol, each with the new chain key and no signing key.
\<close>

theorem key_update_recipients_witness:
  "groups_json alice_ready = Groups [(''team'', ready_group)]
   \<and> map_of [(''team'', ready_group)] (prop_key (p_groupId leave_notice)) = Some ready_group
   \<and> memberKeys ready_group = Some [(''alice'', chain_key0)]
   \<and> signingKeys ready_group = Some [(''alice'', group_pub0)]
   \<and> fs_writable alice_ready
   \<and> members ready_group = Some [''alice'', ''bob'', ''carol'']
   \<and> p_senderId leave_notice = Some ''carol''
   \<and> list_all (\<lambda>m. Some m = creator ready_group \<or>
          delivered toy ''sk_alice'' ''/api/user/'' ''/api/send'' m
            (key_update_notice toy ''team'' (Some chain_key1) None))
        [''alice'', ''bob'', ''carol'']
   \<and> posted (trace (snd (group_leave toy ''sk_alice'' (rest_data leave_notice) alice_ready)))
       = [key_update_for ''bob'', key_update_for ''carol'']
   \<and> message (key_update_for ''carol'') =
       ''E[pk_carol]{type=GROUP_KEY_UPDATE;groupId=team;chainKey='' @ chain_key1 @ '';}''"
proof -
  have h: "groups_json alice_ready = Groups [(''team'', ready_group)]"
    "map_of [(''team'', ready_group)] (prop_key (p_groupId leave_notice)) = Some ready_group"
    "memberKeys ready_group = Some [(''alice'', chain_key0)]"
    "signingKeys ready_group = Some [(''alice'', group_pub0)]"
    "fs_writable alice_ready"
    "members ready_group = Some [''alice'', ''bob'', ''carol'']"
    by code_simp+
  have n: "p_senderId leave_notice = Some ''carol''" "prop_key (p_groupId leave_notice) = ''team''"
    "mySigningPubKey ready_group = None" "posted (trace alice_ready) = []"
    "to_hex (map (entropy toy) [drawn alice_ready ..< drawn alice_ready + 32]) = chain_key1"
    by code_simp+
  have d: "list_all (\<lambda>m. Some m = creator ready_group \<or>
          delivered toy ''sk_alice'' ''/api/user/'' ''/api/send'' m
            (key_update_notice toy ''team'' (Some chain_key1) None))
        [''alice'', ''bob'', ''carol'']"
    by code_simp
  then have all: "\<forall>m\<in>set [''alice'', ''bob'', ''carol'']. Some m \<noteq> creator ready_group \<longrightarrow>
           delivered toy ''sk_alice'' ''/api/user/'' ''/api/send'' m
             (key_update_notice toy (prop_key (p_groupId leave_notice))
                (Some (to_hex (map (entropy toy) [drawn alice_ready ..< drawn alice_ready + 32])))
                (mySigningPubKey ready_group))"
    unfolding n by (auto simp: list_all_iff)
  have v: "map (\<lambda>m. the (sealed_for toy ''sk_alice'' ''/api/user/'' m
                  (key_update_notice toy ''team'' (Some chain_key1) None)))
             (filter (\<lambda>m. Some m \<noteq> creator ready_group) [''alice'', ''bob'', ''carol''])
           = [key_update_for ''bob'', key_update_for ''carol'']"
    by code_simp
  from key_update_recipients [OF h all]
  have "posted (trace (snd (group_leave toy ''sk_alice'' (rest_data leave_notice) alice_ready))) =
           posted (trace alice_ready) @
           map (\<lambda>m. the (sealed_for toy ''sk_alice'' ''/api/user/'' m
                  (key_update_notice toy (prop_key (p_groupId leave_notice))
                     (Some (to_hex (map (entropy toy) [drawn alice_ready ..< drawn alice_ready + 32])))
                     (mySigningPubKey ready_group))))
             (filter (\<lambda>m. Some m \<noteq> creator ready_group) [''alice'', ''bob'', ''carol''])"
    by blast
  then have p: "posted (trace (snd (group_leave toy ''sk_alice'' (rest_data leave_notice) alice_ready)))
       = [key_update_for ''bob'', key_update_for ''carol'']"
    unfolding n v by simp
  have m: "message (key_update_for ''carol'') =
       ''E[pk_carol]{type=GROUP_KEY_UPDATE;groupId=team;chainKey='' @ chain_key1 @ '';}''"
    by code_simp
  from h n(1) d p m show ?thesis by blast
qed

section \<open>group-send: saving the chain key\<close>

lemma group_send_unfold:
  assumes "loadGroup gn w = Inr (Some g)" and "myChainKey g = Some ck"
    and "eth_sign e (mySigningKey g) (group_blob e g ck msg w) = Some sig"
  shows "group_send e gn msg w =
     catch ''Group send failed''
       (let w2 = snd (saveGroup e gn (spread (advanced e g ck)) (w\<lparr>drawn := drawn w + 16\<rparr>))
        in if post e (API_BASE_URL @ ''/cli/send'') (group_body e g ck msg w sig)
           then (Normal, emit (Console (Info ''Group message sent''))
                   (emit (HttpPost (API_BASE_URL @ ''/cli/send'') (group_body e g ck msg w sig)) w2))
           else (Throw FetchError,
                 emit (HttpPostRejected (API_BASE_URL @ ''/cli/send'') (group_body e g ck msg w sig)) w2))"
  using assms
  by (simp add: group_send_def group_blob_def group_body_def advanced_def randomBytes_def
      Let_def split_def)

lemma group_send_normal:
  assumes "fst (group_send e gn msg w) = Normal"
  shows "\<exists>g ck sig. loadGroup gn w = Inr (Some g) \<and> myChainKey g = Some ck
       \<and> eth_sign e (mySigningKey g) (group_blob e g ck msg w) = Some sig
       \<and> post e (API_BASE_URL @ ''/cli/send'') (group_body e g ck msg w sig)"
  using assms
  by (auto simp: group_send_def group_blob_def group_body_def randomBytes_def
      Let_def split_def split: sum.splits option.splits if_splits)

lemma spread_advanced: "spread (advanced e g ck) g = advanced e g ck"
  by (cases g) (simp add: spread_def advanced_def or_else_def split: option.splits)

text \<open>A loaded object that has a chain key is an entry of the file, not an inherited member.\<close>

lemma loadGroup_own:
  assumes "loadGroup gn w = Inr (Some g)" and "myChainKey g = Some ck"
  shows "\<exists>gs. groups_json w = Groups gs \<and> map_of gs gn = Some g"
  using assms
  by (auto simp: loadGroup_def get_property_def empty_group_def
      split: groups_file.splits option.splits if_splits)

text \<open>
  Claim C4, as amended. In a group send that gets as far as the POST, \<open>saveGroup\<close> is
  called with the next chain key before the request is issued. When the file can be
  written, the write is the first event, the entry then holds the next chain key, and it
  keeps it whether the POST is accepted or rejected. When the file cannot be written,
  \<open>saveGroup\<close> logs the failure and answers \<^verbatim>\<open>false\<close>, which the command ignores: the
  message is posted all the same, the command ends normally, and the groups file is as
  before, so the old chain key stays in force.
\<close>

theorem chain_key_saved_before_send:
  assumes "loadGroup gn w = Inr (Some g)" and "myChainKey g = Some ck"
    and "eth_sign e (mySigningKey g) (group_blob e g ck msg w) = Some sig"
  shows "(fs_writable w \<longrightarrow>
           (\<exists>gs' tail.
              trace (snd (group_send e gn msg w)) = trace w @ FsWrite gs' # tail
            \<and> map_of gs' gn = Some ((advanced e g ck)\<lparr>updatedAt := Some (now e)\<rparr>)
            \<and> tail = (if post e (API_BASE_URL @ ''/cli/send'') (group_body e g ck msg w sig)
                 then [HttpPost (API_BASE_URL @ ''/cli/send'') (group_body e g ck msg w sig),
                       Console (Info ''Group message sent'')]
                 else [HttpPostRejected (API_BASE_URL @ ''/cli/send'') (group_body e g ck msg w sig),
                       Console (ErrorLine ''Group send failed'')])
            \<and> loadGroup gn (snd (group_send e gn msg w)) =
                 Inr (Some ((advanced e g ck)\<lparr>updatedAt := Some (now e)\<rparr>))))
       \<and> (\<not> fs_writable w \<longrightarrow> post e (API_BASE_URL @ ''/cli/send'') (group_body e g ck msg w sig) \<longrightarrow>
            group_send e gn msg w =
              (Normal, w\<lparr>drawn := drawn w + 16,
                 trace := trace w @
                   [Console (ErrorLine ''Failed to save group locally''),
                    HttpPost (API_BASE_URL @ ''/cli/send'') (group_body e g ck msg w sig),
                    Console (Info ''Group message sent'')]\<rparr>))"
proof (intro conjI impI)
  assume wr: "fs_writable w"
  from loadGroup_own [OF assms(1,2)] obtain gs where
    gs: "groups_json w = Groups gs" "map_of gs gn = Some g"
    by blast
  let ?g' = "(advanced e g ck)\<lparr>updatedAt := Some (now e)\<rparr>"
  let ?gs' = "AList.update gn ?g' gs"
  have sp: "spread (advanced e g ck) g = advanced e g ck"
    by (rule spread_advanced)
  have save: "snd (saveGroup e gn (spread (advanced e g ck)) (w\<lparr>drawn := drawn w + 16\<rparr>)) =
      emit (FsWrite ?gs') (w\<lparr>drawn := drawn w + 16, groups_json := Groups ?gs'\<rparr>)"
    using gs wr by (simp add: saveGroup_writable set_property_own Let_def sp)
  have look: "map_of ?gs' gn = Some ?g'"
    by (simp add: update_conv')
  show "\<exists>gs' tail.
              trace (snd (group_send e gn msg w)) = trace w @ FsWrite gs' # tail
            \<and> map_of gs' gn = Some ?g'
            \<and> tail = (if post e (API_BASE_URL @ ''/cli/send'') (group_body e g ck msg w sig)
                 then [HttpPost (API_BASE_URL @ ''/cli/send'') (group_body e g ck msg w sig),
                       Console (Info ''Group message sent'')]
                 else [HttpPostRejected (API_BASE_URL @ ''/cli/send'') (group_body e g ck msg w sig),
                       Console (ErrorLine ''Group send failed'')])
            \<and> loadGroup gn (snd (group_send e gn msg w)) = Inr (Some ?g')"
    using look
    by (simp add: group_send_unfold [OF assms] save Let_def catch_def emit_def loadGroup_def
        get_property_def)
next
  assume "\<not> fs_writable w"
    and "post e (API_BASE_URL @ ''/cli/send'') (group_body e g ck msg w sig)"
  moreover from assms(1) obtain gs where "groups_json w = Groups gs"
    by (auto simp: loadGroup_def split: groups_file.splits)
  ultimately show "group_send e gn msg w =
              (Normal, w\<lparr>drawn := drawn w + 16,
                 trace := trace w @
                   [Console (ErrorLine ''Failed to save group locally''),
                    HttpPost (API_BASE_URL @ ''/cli/send'') (group_body e g ck msg w sig),
                    Console (Info ''Group message sent'')]\<rparr>)"
    by (simp add: group_send_unfold [OF assms] saveGroup_def Let_def catch_def emit_def)
qed

section \<open>create-group: distribution and persistence\<close>

lemma distribute_to_delivered:
  assumes "delivered e key ''/cli/user/'' ''/cli/send'' m (json_stringify e setup)"
  shows "fst (distribute_to e key setup m w) = Normal
       \<and> groups_json (snd (distribute_to e key setup m w)) = groups_json w
       \<and> posted (trace (snd (distribute_to e key setup m w))) =
           posted (trace w) @ [the (sealed_for e key ''/cli/user/'' m (json_stringify e setup))]"
  using assms
  by (auto simp: distribute_to_def delivered_def sealed_for_def Let_def split: option.splits)

lemma distribute_to_failed:
  assumes "\<not> delivered e key ''/cli/user/'' ''/cli/send'' m (json_stringify e setup)"
  shows "(\<exists>ex. fst (distribute_to e key setup m w) = Throw ex)
       \<and> groups_json (snd (distribute_to e key setup m w)) = groups_json w
       \<and> posted (trace (snd (distribute_to e key setup m w))) = posted (trace w)"
  using assms
  by (auto simp: distribute_to_def delivered_def sealed_for_def Let_def split: option.splits)

lemma distribute_all:
  assumes "\<forall>m\<in>set ms. delivered e key ''/cli/user/'' ''/cli/send'' m (json_stringify e setup)"
  shows "fst (for_of (distribute_to e key setup) ms w) = Normal
       \<and> groups_json (snd (for_of (distribute_to e key setup) ms w)) = groups_json w
       \<and> posted (trace (snd (for_of (distribute_to e key setup) ms w))) =
           posted (trace w) @
           map (\<lambda>m. the (sealed_for e key ''/cli/user/'' m (json_stringify e setup))) ms"
  using assms
proof (induction ms arbitrary: w)
  case Nil
  then show ?case by simp
next
  case (Cons m ms)
  from Cons.prems have d: "delivered e key ''/cli/user/'' ''/cli/send'' m (json_stringify e setup)"
    and rest: "\<forall>m\<in>set ms. delivered e key ''/cli/user/'' ''/cli/send'' m (json_stringify e setup)"
    by simp_all
  from distribute_to_delivered [OF d, of w] Cons.IH [OF rest, of "snd (distribute_to e key setup m w)"]
  show ?case
    by (simp add: fst_and_then snd_and_then)
qed

lemma distribute_stops:
  assumes "\<forall>m\<in>set pre. delivered e key ''/cli/user/'' ''/cli/send'' m (json_stringify e setup)"
    and "\<not> delivered e key ''/cli/user/'' ''/cli/send'' m (json_stringify e setup)"
  shows "(\<exists>ex. fst (for_of (distribute_to e key setup) (pre @ m # rest) w) = Throw ex)
       \<and> groups_json (snd (for_of (distribute_to e key setup) (pre @ m # rest) w)) = groups_json w
       \<and> posted (trace (snd (for_of (distribute_to e key setup) (pre @ m # rest) w))) =
           posted (trace w) @
           map (\<lambda>m. the (sealed_for e key ''/cli/user/'' m (json_stringify e setup))) pre"
  using assms(1)
proof (induction pre arbitrary: w)
  case Nil
  from distribute_to_failed [OF assms(2), of w] show ?case
    by (auto simp: fst_and_then snd_and_then)
next
  case (Cons x pre)
  from Cons.prems have d: "delivered e key ''/cli/user/'' ''/cli/send'' x (json_stringify e setup)"
    and rest: "\<forall>m\<in>set pre. delivered e key ''/cli/user/'' ''/cli/send'' m (json_stringify e setup)"
    by simp_all
  from distribute_to_delivered [OF d, of w] Cons.IH [OF rest, of "snd (distribute_to e key setup x w)"]
  show ?case
    by (simp add: fst_and_then snd_and_then)
qed

lemma create_group_unfold:
  assumes "publicKeyByPrivateKey e key = Some cpk"
  shows "create_group e gn ms key w =
     catch ''Failed to create group''
       (and_then
          (for_of (distribute_to e key (group_setup e gn ms cpk w)) ms
             ((emit (Console (Info (''Creating group '' @ gn))) w)\<lparr>drawn := drawn w + 64\<rparr>))
          (\<lambda>w3. (Normal, emit (Console (Info ''Group created and keys distributed!''))
             (snd (saveGroup e gn
                (\<lambda>old. old\<lparr>name := Some gn,
                   groupInboxId := Some (hashGroupId e gn cpk),
                   creator := (case ms of [] \<Rightarrow> None | m # ms \<Rightarrow> Some m),
                   myChainKey := Some (to_hex (map (entropy e) [drawn w ..< drawn w + 32])),
                   mySigningKey :=
                     Some (fst (createIdentity e (map (entropy e) [drawn w + 32 ..< drawn w + 64]))),
                   members := Some ms\<rparr>) w3)))))"
  using assms
  by (simp add: create_group_def group_setup_def randomBytes_def emit_def Let_def split_def
      add.commute)


lemma create_group_stops:
  assumes "publicKeyByPrivateKey e key = Some cpk"
    and "\<forall>x\<in>set pre. delivered e key ''/cli/user/'' ''/cli/send'' x
           (json_stringify e (group_setup e gn (pre @ m # rest) cpk w))"
    and "\<not> delivered e key ''/cli/user/'' ''/cli/send'' m
           (json_stringify e (group_setup e gn (pre @ m # rest) cpk w))"
  shows "(\<exists>ex. fst (create_group e gn (pre @ m # rest) key w) = Throw ex)
       \<and> groups_json (snd (create_group e gn (pre @ m # rest) key w)) = groups_json w
       \<and> posted (trace (snd (create_group e gn (pre @ m # rest) key w))) =
           posted (trace w) @
           map (\<lambda>x. the (sealed_for e key ''/cli/user/'' x
                  (json_stringify e (group_setup e gn (pre @ m # rest) cpk w)))) pre
       \<and> last (trace (snd (create_group e gn (pre @ m # rest) key w))) =
           Console (ErrorLine ''Failed to create group'')"
proof -
  let ?ms = "pre @ m # rest"
  let ?w2 = "(emit (Console (Info (''Creating group '' @ gn))) w)\<lparr>drawn := drawn w + 64\<rparr>"
  let ?loop = "for_of (distribute_to e key (group_setup e gn ?ms cpk w)) ?ms ?w2"
  from distribute_stops [OF assms(2,3), of rest ?w2] obtain ex where
    l: "fst ?loop = Throw ex" "groups_json (snd ?loop) = groups_json ?w2"
       "posted (trace (snd ?loop)) = posted (trace ?w2) @
           map (\<lambda>x. the (sealed_for e key ''/cli/user/'' x
                  (json_stringify e (group_setup e gn ?ms cpk w)))) pre"
    by blast
  have p2: "posted (trace ?w2) = posted (trace w)"
    by (simp add: emit_def posted_append)
  have g2: "groups_json ?w2 = groups_json w"
    by (simp add: emit_def)
  obtain k where cg: "create_group e gn ?ms key w =
      catch ''Failed to create group'' (and_then ?loop k)"
    using create_group_unfold [OF assms(1), of gn ?ms w] by blast
  let ?r = "and_then ?loop k"
  from l(1) have thr: "fst ?r = Throw ex" and same: "snd ?r = snd ?loop"
    by (simp_all add: fst_and_then snd_and_then)
  have "fst (create_group e gn ?ms key w) = Throw ex"
    using thr by (simp only: cg fst_catch)
  moreover have "groups_json (snd (create_group e gn ?ms key w)) = groups_json w"
    using l(2) g2 by (simp only: cg catch_store same)
  moreover have "posted (trace (snd (create_group e gn ?ms key w))) =
           posted (trace w) @
           map (\<lambda>x. the (sealed_for e key ''/cli/user/'' x
                  (json_stringify e (group_setup e gn ?ms cpk w)))) pre"
    using l(3) p2 by (simp only: cg posted_catch same)
  moreover have "last (trace (snd (create_group e gn ?ms key w))) =
           Console (ErrorLine ''Failed to create group'')"
    by (simp only: cg trace_catch_last [OF thr] last_snoc)
  ultimately show ?thesis by blast
qed

lemma create_group_done:
  assumes "publicKeyByPrivateKey e key = Some cpk"
    and "\<forall>x\<in>set ms. delivered e key ''/cli/user/'' ''/cli/send'' x
           (json_stringify e (group_setup e gn ms cpk w))"
  shows "fst (create_group e gn ms key w) = Normal
       \<and> posted (trace (snd (create_group e gn ms key w))) =
           posted (trace w) @
           map (\<lambda>x. the (sealed_for e key ''/cli/user/'' x
                  (json_stringify e (group_setup e gn ms cpk w)))) ms
       \<and> (fs_writable w \<longrightarrow> groups_json w \<noteq> Corrupt \<longrightarrow> gn \<noteq> ''__proto__'' \<longrightarrow>
            loadGroup gn (snd (create_group e gn ms key w)) =
              Inr (Some ((stored w gn)\<lparr>name := Some gn,
                   groupInboxId := Some (hashGroupId e gn cpk),
                   creator := (case ms of [] \<Rightarrow> None | m # ms \<Rightarrow> Some m),
                   myChainKey := Some (to_hex (map (entropy e) [drawn w ..< drawn w + 32])),
                   mySigningKey :=
                     Some (fst (createIdentity e (map (entropy e) [drawn w + 32 ..< drawn w + 64]))),
                   members := Some ms, updatedAt := Some (now e)\<rparr>)))"
proof -
  let ?w2 = "(emit (Console (Info (''Creating group '' @ gn))) w)\<lparr>drawn := drawn w + 64\<rparr>"
  let ?loop = "for_of (distribute_to e key (group_setup e gn ms cpk w)) ms ?w2"
  from distribute_all [OF assms(2), of ?w2] have
    l: "fst ?loop = Normal" "groups_json (snd ?loop) = groups_json ?w2"
       "posted (trace (snd ?loop)) = posted (trace ?w2) @
           map (\<lambda>x. the (sealed_for e key ''/cli/user/'' x
                  (json_stringify e (group_setup e gn ms cpk w)))) ms"
    by blast+
  have p2: "posted (trace ?w2) = posted (trace w)"
    by (simp add: emit_def posted_append)
  have g2: "groups_json ?w2 = groups_json w"
    by (simp add: emit_def)
  have st: "stored (snd ?loop) gn = stored w gn"
    using l(2) g2 by (simp add: stored_def)
  have wr: "fs_writable (snd ?loop) = fs_writable w"
  proof -
    have "fs_writable (snd (for_of (distribute_to e key s) xs v)) = fs_writable v" for s xs v
      by (rule for_of_invariant [where P = "\<lambda>u. fs_writable u = fs_writable v"])
         (simp_all add: distribute_to_def Let_def emit_def split: option.splits)
    then show ?thesis by (simp add: emit_def)
  qed
  define sv where "sv = saveGroup e gn
                (\<lambda>old. old\<lparr>name := Some gn,
                   groupInboxId := Some (hashGroupId e gn cpk),
                   creator := (case ms of [] \<Rightarrow> None | m # ms \<Rightarrow> Some m),
                   myChainKey := Some (to_hex (map (entropy e) [drawn w ..< drawn w + 32])),
                   mySigningKey :=
                     Some (fst (createIdentity e (map (entropy e) [drawn w + 32 ..< drawn w + 64]))),
                   members := Some ms\<rparr>)"
  have cg: "create_group e gn ms key w =
      catch ''Failed to create group''
        (and_then ?loop (\<lambda>w3. (Normal,
           emit (Console (Info ''Group created and keys distributed!'')) (snd (sv w3)))))"
    unfolding sv_def by (rule create_group_unfold [OF assms(1)])
  have sv_posted: "posted (trace (snd (sv v))) = posted (trace v)" for v
    by (simp add: sv_def)
  let ?r = "and_then ?loop (\<lambda>w3. (Normal,
           emit (Console (Info ''Group created and keys distributed!'')) (snd (sv w3))))"
  from l(1) have f: "fst ?r = Normal"
    and s: "snd ?r = emit (Console (Info ''Group created and keys distributed!''))
              (snd (sv (snd ?loop)))"
    by (simp_all only: fst_and_then snd_and_then if_True fst_conv snd_conv simp_thms)
  have "fst (create_group e gn ms key w) = Normal"
    using f by (simp only: cg fst_catch)
  moreover have "posted (trace (snd (create_group e gn ms key w))) =
           posted (trace w) @
           map (\<lambda>x. the (sealed_for e key ''/cli/user/'' x
                  (json_stringify e (group_setup e gn ms cpk w)))) ms"
    using l(3) p2 by (simp only: cg posted_catch s posted_emit_console sv_posted)
  moreover have "loadGroup gn (snd (create_group e gn ms key w)) =
              Inr (Some ((stored w gn)\<lparr>name := Some gn,
                   groupInboxId := Some (hashGroupId e gn cpk),
                   creator := (case ms of [] \<Rightarrow> None | m # ms \<Rightarrow> Some m),
                   myChainKey := Some (to_hex (map (entropy e) [drawn w ..< drawn w + 32])),
                   mySigningKey :=
                     Some (fst (createIdentity e (map (entropy e) [drawn w + 32 ..< drawn w + 64]))),
                   members := Some ms, updatedAt := Some (now e)\<rparr>))"
    if "fs_writable w" "groups_json w \<noteq> Corrupt" "gn \<noteq> ''__proto__''"
  proof -
    from that wr l(2) g2 have ok: "fs_writable (snd ?loop)" "groups_json (snd ?loop) \<noteq> Corrupt"
      "gn \<noteq> ''__proto__''"
      by simp_all
    have "loadGroup gn (snd (create_group e gn ms key w)) = loadGroup gn (snd (sv (snd ?loop)))"
      by (simp only: cg loadGroup_def catch_store s groups_emit)
    also have "\<dots> = Inr (Some ((stored (snd ?loop) gn)\<lparr>name := Some gn,
                   groupInboxId := Some (hashGroupId e gn cpk),
                   creator := (case ms of [] \<Rightarrow> None | m # ms \<Rightarrow> Some m),
                   myChainKey := Some (to_hex (map (entropy e) [drawn w ..< drawn w + 32])),
                   mySigningKey :=
                     Some (fst (createIdentity e (map (entropy e) [drawn w + 32 ..< drawn w + 64]))),
                   members := Some ms, updatedAt := Some (now e)\<rparr>))"
      unfolding sv_def by (simp only: saveGroup_loaded [OF ok])
    finally show ?thesis
      by (simp only: st)
  qed
  ultimately show ?thesis by blast
qed


text \<open>
  Claim C6, as amended. With a usable private key, \<^verbatim>\<open>create-group\<close> has two outcomes.
  If the distribution to some invitee throws (key lookup, encryption, signing or a
  rejected POST) while it went through for the invitees before it, the command does not
  end normally, the groups file is unchanged, the records posted are those of the earlier
  invitees only, and the last thing it prints is the single error line. If the
  distribution goes through for every invitee, the command ends normally, one record per
  invitee was posted, and (the file being writable) the entry stored under the group name
  lists all the members given; the name \<^verbatim>\<open>__proto__\<close> is set aside, under which the
  store keeps no entry.
\<close>

theorem create_group_all_or_nothing:
  assumes "publicKeyByPrivateKey e key = Some cpk"
  shows "((\<forall>x\<in>set pre. delivered e key ''/cli/user/'' ''/cli/send'' x
              (json_stringify e (group_setup e gn (pre @ m # rest) cpk w)))
          \<and> \<not> delivered e key ''/cli/user/'' ''/cli/send'' m
              (json_stringify e (group_setup e gn (pre @ m # rest) cpk w)) \<longrightarrow>
          fst (create_group e gn (pre @ m # rest) key w) \<noteq> Normal
        \<and> groups_json (snd (create_group e gn (pre @ m # rest) key w)) = groups_json w
        \<and> posted (trace (snd (create_group e gn (pre @ m # rest) key w))) =
            posted (trace w) @
            map (\<lambda>x. the (sealed_for e key ''/cli/user/'' x
                   (json_stringify e (group_setup e gn (pre @ m # rest) cpk w)))) pre
        \<and> last (trace (snd (create_group e gn (pre @ m # rest) key w))) =
            Console (ErrorLine ''Failed to create group''))
       \<and> ((\<forall>x\<in>set ms. delivered e key ''/cli/user/'' ''/cli/send'' x
              (json_stringify e (group_setup e gn ms cpk w))) \<longrightarrow>
          fst (create_group e gn ms key w) = Normal
        \<and> posted (trace (snd (create_group e gn ms key w))) =
            posted (trace w) @
            map (\<lambda>x. the (sealed_for e key ''/cli/user/'' x
                   (json_stringify e (group_setup e gn ms cpk w)))) ms
        \<and> (fs_writable w \<longrightarrow> groups_json w \<noteq> Corrupt \<longrightarrow> gn \<noteq> ''__proto__'' \<longrightarrow>
             loadGroup gn (snd (create_group e gn ms key w)) =
               Inr (Some ((stored w gn)\<lparr>name := Some gn,
                    groupInboxId := Some (hashGroupId e gn cpk),
                    creator := (case ms of [] \<Rightarrow> None | m # ms \<Rightarrow> Some m),
                    myChainKey := Some (to_hex (map (entropy e) [drawn w ..< drawn w + 32])),
                    mySigningKey :=
                      Some (fst (createIdentity e (map (entropy e) [drawn w + 32 ..< drawn w + 64]))),
                    members := Some ms, updatedAt := Some (now e)\<rparr>))))"
proof (intro conjI impI)
  assume a: "(\<forall>x\<in>set pre. delivered e key ''/cli/user/'' ''/cli/send'' x
              (json_stringify e (group_setup e gn (pre @ m # rest) cpk w)))
          \<and> \<not> delivered e key ''/cli/user/'' ''/cli/send'' m
              (json_stringify e (group_setup e gn (pre @ m # rest) cpk w))"
  then have 1: "\<forall>x\<in>set pre. delivered e key ''/cli/user/'' ''/cli/send'' x
              (json_stringify e (group_setup e gn (pre @ m # rest) cpk w))"
    and 2: "\<not> delivered e key ''/cli/user/'' ''/cli/send'' m
              (json_stringify e (group_setup e gn (pre @ m # rest) cpk w))"
    by blast+
  note s = create_group_stops [OF assms 1 2]
  from s show "fst (create_group e gn (pre @ m # rest) key w) \<noteq> Normal" by auto
  from s show "groups_json (snd (create_group e gn (pre @ m # rest) key w)) = groups_json w"
    by blast
  from s show "posted (trace (snd (create_group e gn (pre @ m # rest) key w))) =
            posted (trace w) @
            map (\<lambda>x. the (sealed_for e key ''/cli/user/'' x
                   (json_stringify e (group_setup e gn (pre @ m # rest) cpk w)))) pre"
    by blast
  from s show "last (trace (snd (create_group e gn (pre @ m # rest) key w))) =
            Console (ErrorLine ''Failed to create group'')"
    by blast
next
  assume a: "\<forall>x\<in>set ms. delivered e key ''/cli/user/'' ''/cli/send'' x
              (json_stringify e (group_setup e gn ms cpk w))"
  note d = create_group_done [OF assms a]
  from d show "fst (create_group e gn ms key w) = Normal" by blast
  from d show "posted (trace (snd (create_group e gn ms key w))) =
            posted (trace w) @
            map (\<lambda>x. the (sealed_for e key ''/cli/user/'' x
                   (json_stringify e (group_setup e gn ms cpk w)))) ms"
    by blast
  assume "fs_writable w" "groups_json w \<noteq> Corrupt" "gn \<noteq> ''__proto__''"
  with d show "loadGroup gn (snd (create_group e gn ms key w)) =
               Inr (Some ((stored w gn)\<lparr>name := Some gn,
                    groupInboxId := Some (hashGroupId e gn cpk),
                    creator := (case ms of [] \<Rightarrow> None | m # ms \<Rightarrow> Some m),
                    myChainKey := Some (to_hex (map (entropy e) [drawn w ..< drawn w + 32])),
                    mySigningKey :=
                      Some (fst (createIdentity e (map (entropy e) [drawn w + 32 ..< drawn w + 64]))),
                    members := Some ms, updatedAt := Some (now e)\<rparr>))"
    by blast
qed

lemma toy_setup:
  "json_stringify toy (group_setup toy ''team'' [''alice'', ''bob'', ''carol''] ''pk_alice'' fresh_world)
     = toy_stringify setup_payload"
  "json_stringify bob_unreachable
     (group_setup bob_unreachable ''team'' [''alice'', ''bob'', ''carol''] ''pk_alice'' fresh_world)
     = toy_stringify setup_payload"
  by code_simp+

lemma toy_sealed:
  "sealed_for toy ''sk_alice'' ''/cli/user/'' ''alice'' (toy_stringify setup_payload) = Some (setup_for ''alice'')"
  "sealed_for toy ''sk_alice'' ''/cli/user/'' ''bob'' (toy_stringify setup_payload) = Some (setup_for ''bob'')"
  "sealed_for toy ''sk_alice'' ''/cli/user/'' ''carol'' (toy_stringify setup_payload) = Some (setup_for ''carol'')"
  "sealed_for bob_unreachable ''sk_alice'' ''/cli/user/'' ''alice'' (toy_stringify setup_payload) = Some (setup_for ''alice'')"
  by code_simp+

lemma toy_delivered:
  "delivered toy ''sk_alice'' ''/cli/user/'' ''/cli/send'' ''alice'' (toy_stringify setup_payload)"
  "delivered toy ''sk_alice'' ''/cli/user/'' ''/cli/send'' ''bob'' (toy_stringify setup_payload)"
  "delivered toy ''sk_alice'' ''/cli/user/'' ''/cli/send'' ''carol'' (toy_stringify setup_payload)"
  "delivered bob_unreachable ''sk_alice'' ''/cli/user/'' ''/cli/send'' ''alice'' (toy_stringify setup_payload)"
  "\<not> delivered bob_unreachable ''sk_alice'' ''/cli/user/'' ''/cli/send'' ''bob'' (toy_stringify setup_payload)"
  by code_simp+

text \<open>
  The claim as stated fails: with bob's inbox unreachable, creating \<open>team\<close> for alice, bob
  and carol does not end normally, persists nothing (the groups file is still missing),
  leaves alice's setup record posted, never contacts carol, and reports one error line
  rather than a list of failures.
\<close>

theorem create_group_partial_failure_counterexample:
  "fst (create_group bob_unreachable ''team'' [''alice'', ''bob'', ''carol''] ''sk_alice'' fresh_world)
     \<noteq> Normal
   \<and> groups_json (snd (create_group bob_unreachable ''team'' [''alice'', ''bob'', ''carol'']
        ''sk_alice'' fresh_world)) = Missing
   \<and> posted (trace (snd (create_group bob_unreachable ''team'' [''alice'', ''bob'', ''carol'']
        ''sk_alice'' fresh_world))) = [setup_for ''alice'']
   \<and> last (trace (snd (create_group bob_unreachable ''team'' [''alice'', ''bob'', ''carol'']
        ''sk_alice'' fresh_world))) = Console (ErrorLine ''Failed to create group'')"
proof -
  have k: "publicKeyByPrivateKey bob_unreachable ''sk_alice'' = Some ''pk_alice''"
    by code_simp
  have 1: "\<forall>x\<in>set [''alice'']. delivered bob_unreachable ''sk_alice'' ''/cli/user/'' ''/cli/send'' x
      (json_stringify bob_unreachable (group_setup bob_unreachable ''team''
         ([''alice''] @ ''bob'' # [''carol'']) ''pk_alice'' fresh_world))"
    using toy_delivered(4) by (simp add: toy_setup)
  have 2: "\<not> delivered bob_unreachable ''sk_alice'' ''/cli/user/'' ''/cli/send'' ''bob''
      (json_stringify bob_unreachable (group_setup bob_unreachable ''team''
         ([''alice''] @ ''bob'' # [''carol'']) ''pk_alice'' fresh_world))"
    using toy_delivered(5) by (simp add: toy_setup)
  have f: "groups_json fresh_world = Missing" "posted (trace fresh_world) = []"
    by code_simp+
  from create_group_stops [OF k 1 2] show ?thesis
    by (auto simp: toy_setup toy_sealed f)
qed


text \<open>
  Both outcomes in the concrete environment: every invitee reachable, and bob
  unreachable.
\<close>

theorem create_group_all_or_nothing_witness:
  "publicKeyByPrivateKey toy ''sk_alice'' = Some ''pk_alice''
   \<and> list_all (\<lambda>x. delivered toy ''sk_alice'' ''/cli/user/'' ''/cli/send'' x
         (toy_stringify setup_payload)) [''alice'', ''bob'', ''carol'']
   \<and> fst (create_group toy ''team'' [''alice'', ''bob'', ''carol''] ''sk_alice'' fresh_world) = Normal
   \<and> posted (trace (snd (create_group toy ''team'' [''alice'', ''bob'', ''carol''] ''sk_alice''
        fresh_world))) = [setup_for ''alice'', setup_for ''bob'', setup_for ''carol'']
   \<and> loadGroup ''team'' (snd (create_group toy ''team'' [''alice'', ''bob'', ''carol''] ''sk_alice''
        fresh_world)) = Inr (Some created_group)
   \<and> delivered bob_unreachable ''sk_alice'' ''/cli/user/'' ''/cli/send'' ''alice''
        (toy_stringify setup_payload)
   \<and> delivered bob_unreachable ''sk_alice'' ''/cli/user/'' ''/cli/send'' ''bob''
        (toy_stringify setup_payload) = False
   \<and> groups_json (snd (create_group bob_unreachable ''team'' [''alice'', ''bob'', ''carol'']
        ''sk_alice'' fresh_world)) = groups_json fresh_world"
proof -
  have k: "publicKeyByPrivateKey toy ''sk_alice'' = Some ''pk_alice''"
    "publicKeyByPrivateKey bob_unreachable ''sk_alice'' = Some ''pk_alice''"
    by code_simp+
  have all: "\<forall>x\<in>set [''alice'', ''bob'', ''carol''].
      delivered toy ''sk_alice'' ''/cli/user/'' ''/cli/send'' x
        (json_stringify toy (group_setup toy ''team'' [''alice'', ''bob'', ''carol''] ''pk_alice''
           fresh_world))"
    using toy_delivered(1-3) by (simp add: toy_setup)
  have f: "fs_writable fresh_world" "groups_json fresh_world \<noteq> Corrupt"
    "posted (trace fresh_world) = []"
    by code_simp+
  have tn: "''team'' \<noteq> ''__proto__''"
    by simp
  have g: "(stored fresh_world ''team'')\<lparr>name := Some ''team'',
       groupInboxId := Some (hashGroupId toy ''team'' ''pk_alice''),
       creator := Some ''alice'',
       myChainKey := Some (to_hex (map (entropy toy) [drawn fresh_world ..< drawn fresh_world + 32])),
       mySigningKey := Some (fst (createIdentity toy
         (map (entropy toy) [drawn fresh_world + 32 ..< drawn fresh_world + 64]))),
       members := Some [''alice'', ''bob'', ''carol''], updatedAt := Some (now toy)\<rparr>
     = created_group"
    by code_simp
  from create_group_all_or_nothing [OF k(1), where gn = "''team''" and w = fresh_world
      and ms = "[''alice'', ''bob'', ''carol'']"] all f(1,2) tn
  have d: "fst (create_group toy ''team'' [''alice'', ''bob'', ''carol''] ''sk_alice'' fresh_world) = Normal"
    "posted (trace (snd (create_group toy ''team'' [''alice'', ''bob'', ''carol''] ''sk_alice''
        fresh_world))) = [setup_for ''alice'', setup_for ''bob'', setup_for ''carol'']"
    "loadGroup ''team'' (snd (create_group toy ''team'' [''alice'', ''bob'', ''carol''] ''sk_alice''
        fresh_world)) = Inr (Some created_group)"
    by (simp_all add: toy_setup toy_sealed f(3) g)
  have 1: "\<forall>x\<in>set [''alice'']. delivered bob_unreachable ''sk_alice'' ''/cli/user/'' ''/cli/send'' x
      (json_stringify bob_unreachable (group_setup bob_unreachable ''team''
         ([''alice''] @ ''bob'' # [''carol'']) ''pk_alice'' fresh_world))"
    using toy_delivered(4) by (simp add: toy_setup)
  have 2: "\<not> delivered bob_unreachable ''sk_alice'' ''/cli/user/'' ''/cli/send'' ''bob''
      (json_stringify bob_unreachable (group_setup bob_unreachable ''team''
         ([''alice''] @ ''bob'' # [''carol'']) ''pk_alice'' fresh_world))"
    using toy_delivered(5) by (simp add: toy_setup)
  from create_group_all_or_nothing [OF k(2), where pre = "[''alice'']" and gn = "''team''"
      and m = "''bob''" and rest = "[''carol'']" and w = fresh_world] 1 2
  have s: "groups_json (snd (create_group bob_unreachable ''team'' [''alice'', ''bob'', ''carol'']
        ''sk_alice'' fresh_world)) = groups_json fresh_world"
    by simp
  have l: "list_all (\<lambda>x. delivered toy ''sk_alice'' ''/cli/user/'' ''/cli/send'' x
         (toy_stringify setup_payload)) [''alice'', ''bob'', ''carol'']"
    using toy_delivered(1-3) by simp
  from k(1) l d toy_delivered(4,5) s show ?thesis by simp
qed

text \<open>
  The claim as stated fails: on a machine whose groups file cannot be written, the send
  ends normally and the message is posted although nothing was persisted; the entry still
  holds the old chain key, and the next send seals its message under the same message key
  (the same tag \<open>07a0\<close>).
\<close>

theorem save_failure_ignored_counterexample:
  "fs_writable readonly_alice = False
   \<and> group_send toy ''team'' ''one'' readonly_alice =
       (Normal, readonly_alice\<lparr>drawn := 16, trace :=
          [Console (ErrorLine ''Failed to save group locally''),
           HttpPost (API_BASE_URL @ ''/cli/send'') first_body,
           Console (Info ''Group message sent'')]\<rparr>)
   \<and> loadGroup ''team'' (snd (group_send toy ''team'' ''one'' readonly_alice))
       = Inr (Some alice_group)
   \<and> map message (posted (trace (snd (group_send toy ''team'' ''two''
         (snd (group_send toy ''team'' ''one'' readonly_alice))))))
       = [first_message, reused_key_message]"
  by code_simp

text \<open>
  On Alice's machine, writable and not writable.
\<close>

theorem chain_key_saved_before_send_witness:
  "loadGroup ''team'' alice_world = Inr (Some alice_group)
   \<and> myChainKey alice_group = Some ''a0''
   \<and> eth_sign toy (mySigningKey alice_group) (group_blob toy alice_group ''a0'' ''one'' alice_world)
       = Some ''G[gsk]''
   \<and> fs_writable alice_world
   \<and> group_body toy alice_group ''a0'' ''one'' alice_world ''G[gsk]'' = first_body
   \<and> trace (snd (group_send toy ''team'' ''one'' alice_world)) =
       [FsWrite [(''team'', advanced_alice)],
        HttpPost (API_BASE_URL @ ''/cli/send'') first_body,
        Console (Info ''Group message sent'')]
   \<and> loadGroup ''team'' (snd (group_send toy ''team'' ''one'' alice_world)) =
       Inr (Some advanced_alice)
   \<and> loadGroup ''team'' readonly_alice = Inr (Some alice_group)
   \<and> fs_writable readonly_alice = False
   \<and> post toy (API_BASE_URL @ ''/cli/send'') first_body
   \<and> groups_json (snd (group_send toy ''team'' ''one'' readonly_alice)) = groups_json readonly_alice"
proof -
  have h: "loadGroup ''team'' alice_world = Inr (Some alice_group)"
    "myChainKey alice_group = Some ''a0''"
    "eth_sign toy (mySigningKey alice_group) (group_blob toy alice_group ''a0'' ''one'' alice_world)
       = Some ''G[gsk]''"
    by code_simp+
  have h': "loadGroup ''team'' readonly_alice = Inr (Some alice_group)"
    "eth_sign toy (mySigningKey alice_group) (group_blob toy alice_group ''a0'' ''one'' readonly_alice)
       = Some ''G[gsk]''"
    by code_simp+
  have w: "fs_writable alice_world" "fs_writable readonly_alice = False"
    by code_simp+
  have b: "group_body toy alice_group ''a0'' ''one'' alice_world ''G[gsk]'' = first_body"
    "group_body toy alice_group ''a0'' ''one'' readonly_alice ''G[gsk]'' = first_body"
    "post toy (API_BASE_URL @ ''/cli/send'') first_body"
    "(advanced toy alice_group ''a0'')\<lparr>updatedAt := Some (now toy)\<rparr> = advanced_alice"
    by code_simp+
  have t: "trace (snd (group_send toy ''team'' ''one'' alice_world)) =
       [FsWrite [(''team'', advanced_alice)],
        HttpPost (API_BASE_URL @ ''/cli/send'') first_body,
        Console (Info ''Group message sent'')]"
    by code_simp
  from chain_key_saved_before_send [OF h] w(1)
  have l: "loadGroup ''team'' (snd (group_send toy ''team'' ''one'' alice_world)) =
       Inr (Some advanced_alice)"
    unfolding b by blast
  from chain_key_saved_before_send [OF h'(1) h(2) h'(2)] w(2) b(3)
  have "group_send toy ''team'' ''one'' readonly_alice =
      (Normal, readonly_alice\<lparr>drawn := drawn readonly_alice + 16,
         trace := trace readonly_alice @
           [Console (ErrorLine ''Failed to save group locally''),
            HttpPost (API_BASE_URL @ ''/cli/send'') first_body,
            Console (Info ''Group message sent'')]\<rparr>)"
    unfolding b by simp
  then have r: "groups_json (snd (group_send toy ''team'' ''one'' readonly_alice))
      = groups_json readonly_alice"
    by simp
  from h w b(1,3) t l h'(1) r show ?thesis by simp
qed

section \<open>group-send: the sender tag\<close>

text \<open>
  Claim C8, as amended. \<^verbatim>\<open>group-send\<close> takes a group name and a text and no identity.
  Every send that ends normally posts exactly one record; its \<open>senderId\<close> is the
  \<open>creator\<close> of the stored entry and its \<open>recipientHash\<close> the entry's
  \<open>groupInboxId\<close>. That \<open>creator\<close> is what the last writer of the entry put there:
  \<^verbatim>\<open>create-group\<close> stores the first member given on the command line, and a
  \<^verbatim>\<open>GROUP_SETUP\<close> record read by \<^verbatim>\<open>get-messages\<close> overwrites it (and the inbox id) with
  what the record names, keeping the chain key and the signing key of the entry. On
  receipt the record's \<open>senderId\<close> selects the chain key: a wire triplet is opened with
  the message key one ratchet step from the key stored under that \<open>senderId\<close>, and a
  record whose \<open>senderId\<close> has no stored key is skipped.
\<close>

theorem group_send_tags_stored_creator:
  "(fst (group_send e gn msg w) = Normal \<longrightarrow>
      (\<exists>g ck sig. loadGroup gn w = Inr (Some g) \<and> myChainKey g = Some ck
         \<and> posted (trace (snd (group_send e gn msg w))) =
             posted (trace w) @ [group_body e g ck msg w sig]
         \<and> senderId (group_body e g ck msg w sig) = creator g
         \<and> recipientHash (group_body e g ck msg w sig) = groupInboxId g))
   \<and> (publicKeyByPrivateKey e key = Some cpk \<longrightarrow>
        (\<forall>x\<in>set (m # ms). delivered e key ''/cli/user/'' ''/cli/send'' x
           (json_stringify e (group_setup e gn (m # ms) cpk w))) \<longrightarrow>
        fs_writable w \<longrightarrow> groups_json w \<noteq> Corrupt \<longrightarrow> gn \<noteq> ''__proto__'' \<longrightarrow>
        (\<exists>g. loadGroup gn (snd (create_group e gn (m # ms) key w)) = Inr (Some g)
           \<and> creator g = Some m \<and> members g = Some (m # ms)))
   \<and> (decryptWithPrivateKey e key c = Some j \<longrightarrow> json_parse e j = Some p \<longrightarrow>
        p_senderId p = None \<longrightarrow> p_type p = Some ''GROUP_SETUP'' \<longrightarrow>
        p_groupId p = Some gid \<longrightarrow> gid \<noteq> ''__proto__'' \<longrightarrow>
        r_signature r = Some s \<longrightarrow> s \<noteq> [] \<longrightarrow> verifyMessage e c s = Some signer \<longrightarrow>
        fs_writable w \<longrightarrow> groups_json w \<noteq> Corrupt \<longrightarrow>
        (\<exists>g. loadGroup gid (snd (process_direct_message e key r c w)) = Inr (Some g)
           \<and> creator g = p_creator p \<and> groupInboxId g = p_groupInboxId p
           \<and> myChainKey g = myChainKey (stored w gid)
           \<and> mySigningKey g = mySigningKey (stored w gid)))
   \<and> (CHR '':'' \<notin> set iv \<and> CHR '':'' \<notin> set tag \<and> CHR '':'' \<notin> set ct
        \<and> iv \<noteq> [] \<and> tag \<noteq> [] \<and> ct \<noteq> [] \<longrightarrow>
        process_group_message e grp r (iv @ '':'' @ tag @ '':'' @ ct) w =
          (case memberKeys grp of
             None \<Rightarrow> w
           | Some keys \<Rightarrow>
               (case map_of keys (prop_key (r_senderId r)) of
                  None \<Rightarrow> w
                | Some senderKey \<Rightarrow>
                    if senderKey = [] then w
                    else
                      (case aes_gcm_decrypt e (messageKey (nextKey e (from_hex senderKey)))
                              iv tag ct of
                         None \<Rightarrow> w
                       | Some decrypted \<Rightarrow>
                           (case json_parse e decrypted of
                              None \<Rightarrow> w
                            | Some q \<Rightarrow>
                                emit (Console (Display (r_id r) (p_createdAt q) (p_senderId q)
                                  (p_text q))) w)))))
   \<and> (memberKeys grp = Some keys \<longrightarrow> map_of keys (prop_key (r_senderId r)) = None \<longrightarrow>
        process_group_message e grp r t w = w)"
proof (intro conjI impI)
  assume "fst (group_send e gn msg w) = Normal"
  from group_send_normal [OF this] obtain g ck sig where
    h: "loadGroup gn w = Inr (Some g)" "myChainKey g = Some ck"
       "eth_sign e (mySigningKey g) (group_blob e g ck msg w) = Some sig"
       "post e (API_BASE_URL @ ''/cli/send'') (group_body e g ck msg w sig)"
    by blast
  have "posted (trace (snd (group_send e gn msg w))) =
             posted (trace w) @ [group_body e g ck msg w sig]"
    using h(4) by (simp add: group_send_unfold [OF h(1-3)] Let_def posted_append)
  moreover have "senderId (group_body e g ck msg w sig) = creator g"
    "recipientHash (group_body e g ck msg w sig) = groupInboxId g"
    by (simp_all add: group_body_def)
  ultimately show "\<exists>g ck sig. loadGroup gn w = Inr (Some g) \<and> myChainKey g = Some ck
         \<and> posted (trace (snd (group_send e gn msg w))) =
             posted (trace w) @ [group_body e g ck msg w sig]
         \<and> senderId (group_body e g ck msg w sig) = creator g
         \<and> recipientHash (group_body e g ck msg w sig) = groupInboxId g"
    using h(1,2) by blast
next
  assume "publicKeyByPrivateKey e key = Some cpk"
    and "\<forall>x\<in>set (m # ms). delivered e key ''/cli/user/'' ''/cli/send'' x
           (json_stringify e (group_setup e gn (m # ms) cpk w))"
    and "fs_writable w" and "groups_json w \<noteq> Corrupt" and "gn \<noteq> ''__proto__''"
  from create_group_done [OF this(1,2)] this(3,4,5)
  show "\<exists>g. loadGroup gn (snd (create_group e gn (m # ms) key w)) = Inr (Some g)
           \<and> creator g = Some m \<and> members g = Some (m # ms)"
    by simp
next
  assume d: "decryptWithPrivateKey e key c = Some j" "json_parse e j = Some p"
    "p_senderId p = None" "p_type p = Some ''GROUP_SETUP''" "p_groupId p = Some gid"
    "r_signature r = Some s" "s \<noteq> []" "verifyMessage e c s = Some signer"
    and ok: "fs_writable w" "groups_json w \<noteq> Corrupt" "gid \<noteq> ''__proto__''"
  define entry :: "group \<Rightarrow> group" where "entry = (\<lambda>old. old\<lparr>name := Some gid,
      groupInboxId := p_groupInboxId p, creator := p_creator p,
      memberKeys := Some (single_entry (p_creator p) (p_chainKey p)),
      signingKeys := Some (single_entry (p_creator p) (p_signingPubKey p))\<rparr>)"
  have "process_direct_message e key r c w = (Normal, snd (saveGroup e gid entry w))"
    using d
    by (simp add: process_direct_message_def Let_def truthy_def rest_data_def prop_key_def
        entry_def)
  then have "loadGroup gid (snd (process_direct_message e key r c w)) =
      Inr (Some ((entry (stored w gid))\<lparr>updatedAt := Some (now e)\<rparr>))"
    by (simp add: saveGroup_loaded [OF ok])
  then show "\<exists>g. loadGroup gid (snd (process_direct_message e key r c w)) = Inr (Some g)
           \<and> creator g = p_creator p \<and> groupInboxId g = p_groupInboxId p
           \<and> myChainKey g = myChainKey (stored w gid)
           \<and> mySigningKey g = mySigningKey (stored w gid)"
    by (simp add: entry_def)
next
  assume "CHR '':'' \<notin> set iv \<and> CHR '':'' \<notin> set tag \<and> CHR '':'' \<notin> set ct
        \<and> iv \<noteq> [] \<and> tag \<noteq> [] \<and> ct \<noteq> []"
  then show "process_group_message e grp r (iv @ '':'' @ tag @ '':'' @ ct) w =
          (case memberKeys grp of
             None \<Rightarrow> w
           | Some keys \<Rightarrow>
               (case map_of keys (prop_key (r_senderId r)) of
                  None \<Rightarrow> w
                | Some senderKey \<Rightarrow>
                    if senderKey = [] then w
                    else
                      (case aes_gcm_decrypt e (messageKey (nextKey e (from_hex senderKey)))
                              iv tag ct of
                         None \<Rightarrow> w
                       | Some decrypted \<Rightarrow>
                           (case json_parse e decrypted of
                              None \<Rightarrow> w
                            | Some q \<Rightarrow>
                                emit (Console (Display (r_id r) (p_createdAt q) (p_senderId q)
                                  (p_text q))) w))))"
    by (simp add: process_group_message_triplet del: append.simps append_assoc)
next
  assume "memberKeys grp = Some keys" and "map_of keys (prop_key (r_senderId r)) = None"
  then show "process_group_message e grp r t w = w"
    by (simp add: process_group_message_def Let_def split: option.splits)
qed

text \<open>
  The claim as stated fails. Alice holds the key \<open>sk_alice\<close>, is registered as
  \<open>alice\<close>, and created \<open>team\<close> with herself first, so her entry names her as
  creator. Her inbox holds a \<^verbatim>\<open>GROUP_SETUP\<close> record for \<open>team\<close> that mallory signed and
  that names mallory. After her \<^verbatim>\<open>get-messages\<close>, her own \<^verbatim>\<open>group-send\<close> posts a
  record tagged \<open>mallory\<close>, to the inbox the forged record named.
\<close>

theorem group_send_tags_overwritten_creator_counterexample:
  "publicKeyByPrivateKey toy ''sk_alice'' = Some ''pk_alice''
   \<and> get_user toy (API_BASE_URL @ ''/cli/user/alice'') = Some ''pk_alice''
   \<and> loadGroup ''team'' alice_created = Inr (Some created_group)
   \<and> creator created_group = Some ''alice''
   \<and> fst (get_messages forged_setup_relay ''alice'' ''sk_alice'' alice_created) = Normal
   \<and> loadGroup ''team'' (snd (get_messages forged_setup_relay ''alice'' ''sk_alice'' alice_created))
       = Inr (Some overwritten_group)
   \<and> fst (group_send forged_setup_relay ''team'' ''one''
        (snd (get_messages forged_setup_relay ''alice'' ''sk_alice'' alice_created))) = Normal
   \<and> map senderId (posted (trace (snd (group_send forged_setup_relay ''team'' ''one''
        (snd (get_messages forged_setup_relay ''alice'' ''sk_alice'' alice_created))))))
       = [Some ''mallory'']
   \<and> map recipientHash (posted (trace (snd (group_send forged_setup_relay ''team'' ''one''
        (snd (get_messages forged_setup_relay ''alice'' ''sk_alice'' alice_created))))))
       = [Some ''H(team:pk_mallory)'']"
  by code_simp

text \<open>
  Alice's send of \<open>one\<close> from her own entry posts one record tagged \<open>alice\<close>;
  \<^verbatim>\<open>create-group team alice bob carol\<close> stores \<open>alice\<close> as creator; the forged setup
  record replaces the creator of her entry by \<open>mallory\<close>; Bob opens Alice's first record
  with the key stored under \<open>alice\<close>, and skips the same record tagged \<open>carol\<close>, for
  whom he has no key.
\<close>

theorem group_send_tags_stored_creator_witness:
  "fst (group_send toy ''team'' ''one'' alice_world) = Normal
   \<and> loadGroup ''team'' alice_world = Inr (Some alice_group)
   \<and> creator alice_group = Some ''alice''
   \<and> posted (trace (snd (group_send toy ''team'' ''one'' alice_world))) = [first_body]
   \<and> senderId first_body = Some ''alice''
   \<and> (\<exists>g ck sig. loadGroup ''team'' alice_world = Inr (Some g)
         \<and> posted (trace (snd (group_send toy ''team'' ''one'' alice_world))) =
             posted (trace alice_world) @ [group_body toy g ck ''one'' alice_world sig]
         \<and> senderId (group_body toy g ck ''one'' alice_world sig) = creator g)
   \<and> (\<exists>g. loadGroup ''team'' (snd (create_group toy ''team'' [''alice'', ''bob'', ''carol'']
              ''sk_alice'' fresh_world)) = Inr (Some g)
         \<and> creator g = Some ''alice'')
   \<and> (\<exists>g. loadGroup ''team'' (snd (process_direct_message forged_setup_relay ''sk_alice''
              (envelope ''3'' ''alice'' forged_setup ''mallory'')
              (''E[pk_alice]'' @ toy_stringify forged_setup) alice_created)) = Inr (Some g)
         \<and> creator g = Some ''mallory'' \<and> myChainKey g = myChainKey created_group)
   \<and> process_group_message toy bob_group (group_record ''1'' first_message) first_message
        bob_world
       = emit (Console (Display (Some ''1'') (Some 1000) (Some ''alice'') (Some ''one''))) bob_world
   \<and> process_group_message toy bob_group
        ((group_record ''1'' first_message)\<lparr>r_senderId := Some ''carol''\<rparr>) first_message
        bob_world
       = bob_world"
proof -
  have n: "fst (group_send toy ''team'' ''one'' alice_world) = Normal"
    by code_simp
  have c: "loadGroup ''team'' alice_world = Inr (Some alice_group)"
    "creator alice_group = Some ''alice''"
    "posted (trace (snd (group_send toy ''team'' ''one'' alice_world))) = [first_body]"
    "senderId first_body = Some ''alice''"
    by code_simp+
  note send = group_send_tags_stored_creator
    [where e = toy and gn = "''team''" and msg = "''one''" and w = alice_world,
     THEN conjunct1, rule_format, OF n]
  then have 1: "\<exists>g ck sig. loadGroup ''team'' alice_world = Inr (Some g)
         \<and> posted (trace (snd (group_send toy ''team'' ''one'' alice_world))) =
             posted (trace alice_world) @ [group_body toy g ck ''one'' alice_world sig]
         \<and> senderId (group_body toy g ck ''one'' alice_world sig) = creator g"
    by blast
  have k: "publicKeyByPrivateKey toy ''sk_alice'' = Some ''pk_alice''"
    by code_simp
  have all: "\<forall>x\<in>set (''alice'' # [''bob'', ''carol'']).
      delivered toy ''sk_alice'' ''/cli/user/'' ''/cli/send'' x
        (json_stringify toy (group_setup toy ''team'' (''alice'' # [''bob'', ''carol''])
           ''pk_alice'' fresh_world))"
    using toy_delivered(1-3) by (simp add: toy_setup)
  have f: "fs_writable fresh_world" "groups_json fresh_world \<noteq> Corrupt"
    "''team'' \<noteq> ''__proto__''"
    by code_simp+
  from group_send_tags_stored_creator
    [where e = toy and key = "''sk_alice''" and cpk = "''pk_alice''" and m = "''alice''"
       and ms = "[''bob'', ''carol'']" and gn = "''team''" and w = fresh_world,
     THEN conjunct2, THEN conjunct1, THEN mp, THEN mp, THEN mp, THEN mp, THEN mp, OF k all f]
  have 2: "\<exists>g. loadGroup ''team'' (snd (create_group toy ''team'' [''alice'', ''bob'', ''carol'']
              ''sk_alice'' fresh_world)) = Inr (Some g)
         \<and> creator g = Some ''alice''"
    by blast
  let ?c = "''E[pk_alice]'' @ toy_stringify forged_setup"
  have s: "decryptWithPrivateKey forged_setup_relay ''sk_alice'' ?c
             = Some (toy_stringify forged_setup)"
    "json_parse forged_setup_relay (toy_stringify forged_setup) = Some forged_setup"
    "p_senderId forged_setup = None" "p_type forged_setup = Some ''GROUP_SETUP''"
    "p_groupId forged_setup = Some ''team''" "''team'' \<noteq> ''__proto__''"
    "r_signature (envelope ''3'' ''alice'' forged_setup ''mallory'') = Some ''S[mallory]''"
    "''S[mallory]'' \<noteq> []"
    "verifyMessage forged_setup_relay ?c ''S[mallory]'' = Some ''0xmallory''"
    "fs_writable alice_created" "groups_json alice_created \<noteq> Corrupt"
    by code_simp+
  have sv: "p_creator forged_setup = Some ''mallory''"
    "stored alice_created ''team'' = created_group"
    by code_simp+
  from group_send_tags_stored_creator
    [where e = forged_setup_relay and key = "''sk_alice''" and c = ?c
       and j = "toy_stringify forged_setup" and p = forged_setup and gid = "''team''"
       and r = "envelope ''3'' ''alice'' forged_setup ''mallory''" and s = "''S[mallory]''"
       and signer = "''0xmallory''" and w = alice_created,
     THEN conjunct2, THEN conjunct2, THEN conjunct1, rule_format, OF s]
  have 3: "\<exists>g. loadGroup ''team'' (snd (process_direct_message forged_setup_relay ''sk_alice''
              (envelope ''3'' ''alice'' forged_setup ''mallory'') ?c alice_created)) = Inr (Some g)
         \<and> creator g = Some ''mallory'' \<and> myChainKey g = myChainKey created_group"
    by (simp only: sv) blast
  let ?iv = "''000102030405060708090a0b0c0d0e0f''"
  have t: "CHR '':'' \<notin> set ?iv \<and> CHR '':'' \<notin> set ''07a0''
      \<and> CHR '':'' \<notin> set (toy_stringify (hello ''one''))
      \<and> ?iv \<noteq> [] \<and> ''07a0'' \<noteq> [] \<and> toy_stringify (hello ''one'') \<noteq> []"
    by code_simp
  have fm: "?iv @ '':'' @ ''07a0'' @ '':'' @ toy_stringify (hello ''one'') = first_message"
    by code_simp
  note opened = group_send_tags_stored_creator
    [where e = toy and grp = bob_group and iv = ?iv and tag = "''07a0''"
       and ct = "toy_stringify (hello ''one'')" and w = bob_world,
     THEN conjunct2, THEN conjunct2, THEN conjunct2, THEN conjunct1, rule_format, OF t]
  have o1: "(case memberKeys bob_group of
             None \<Rightarrow> bob_world
           | Some keys \<Rightarrow>
               (case map_of keys (prop_key (r_senderId (group_record ''1'' first_message))) of
                  None \<Rightarrow> bob_world
                | Some senderKey \<Rightarrow>
                    if senderKey = [] then bob_world
                    else
                      (case aes_gcm_decrypt toy (messageKey (nextKey toy (from_hex senderKey)))
                              ?iv ''07a0'' (toy_stringify (hello ''one'')) of
                         None \<Rightarrow> bob_world
                       | Some decrypted \<Rightarrow>
                           (case json_parse toy decrypted of
                              None \<Rightarrow> bob_world
                            | Some q \<Rightarrow>
                                emit (Console (Display (r_id (group_record ''1'' first_message))
                                  (p_createdAt q) (p_senderId q) (p_text q))) bob_world))))
      = emit (Console (Display (Some ''1'') (Some 1000) (Some ''alice'') (Some ''one''))) bob_world"
    by code_simp
  from opened [where r = "group_record ''1'' first_message"]
  have 4: "process_group_message toy bob_group (group_record ''1'' first_message) first_message
        bob_world
       = emit (Console (Display (Some ''1'') (Some 1000) (Some ''alice'') (Some ''one''))) bob_world"
    by (simp only: o1 fm)
  have u: "memberKeys bob_group = Some [(''alice'', ''a0'')]"
    "map_of [(''alice'', ''a0'')]
       (prop_key (r_senderId ((group_record ''1'' first_message)\<lparr>r_senderId := Some ''carol''\<rparr>)))
     = None"
    by code_simp+
  from group_send_tags_stored_creator
    [where e = toy and grp = bob_group and keys = "[(''alice'', ''a0'')]"
       and r = "(group_record ''1'' first_message)\<lparr>r_senderId := Some ''carol''\<rparr>"
       and t = first_message and w = bob_world,
     THEN conjunct2, THEN conjunct2, THEN conjunct2, THEN conjunct2, rule_format, OF u]
  have 5: "process_group_message toy bob_group
        ((group_record ''1'' first_message)\<lparr>r_senderId := Some ''carol''\<rparr>) first_message
        bob_world
       = bob_world" .
  from n c 1 2 3 4 5 show ?thesis by blast
qed

section \<open>Where the scenario states come from\<close>

text \<open>
  The entry on Alice's machine used above is the one the commands themselves produce:
  \<^verbatim>\<open>create-group\<close> stores \<open>created_group\<close> and posts a setup record to each member, Alice
  included; reading her own inbox then merges the key maps of that record into the entry.
  An entry that has not been merged with a setup record has no key maps, and the leave
  branch throws on it before anything is changed.
\<close>

lemma alice_ready_reached:
  "r_message (envelope ''1'' ''alice'' setup_payload ''alice'') = Some (message (setup_for ''alice''))
   \<and> get_messages (relay ''H(alice)'' [envelope ''1'' ''alice'' setup_payload ''alice''])
        ''alice'' ''sk_alice'' alice_created
     = (Normal, alice_ready\<lparr>trace := [HttpGet (API_BASE_URL @ ''/cli/messages/H(alice)''),
         FsWrite [(''team'', ready_group)]]\<rparr>)"
  by code_simp

lemma group_leave_without_key_maps:
  assumes "loadGroup (prop_key (p_groupId data)) w = Inr (Some g)"
    and "memberKeys g = None \<or> signingKeys g = None"
  shows "group_leave e key data w =
     (Throw TypeError,
      emit (Console (Info (prop_key (p_senderId data) @ '' has left the group ''
        @ prop_key (p_groupId data)))) w)"
  using assms
  by (auto simp: group_leave_def loadGroup_def emit_def Let_def split: option.splits)

end
